theory Spec2Isabelle
  imports Main
begin

section \<open>Values, paths and the file store\<close>

text \<open>
  The pipeline of \<^verbatim>\<open>geomeat/data/__init__.py\<close> only coordinates: it tests which files
  exist, builds command lines and control files, calls external tools and moves their
  outputs. The model therefore threads an explicit world (file store, event trace)
  through every function, and takes the collaborators the module imports (process
  runner, template renderer, CSV reader, settings) as fields of an environment record.
\<close>

text \<open>A cell of a dataset row after type coercion, or a settings value.\<close>

datatype pyval = PNone | PBool bool | PInt int | PStr string

text \<open>
  The exceptions the pipeline can meet. \<^verbatim>\<open>PopenError\<close> carries the exit status and the command.
\<close>

datatype error =
    PopenError int string
  | FileNotFoundError string
  | TemplateError string
  | KeyError string
  | TypeError
  | ValueError

text \<open>An argument of a log line or a value handed to the template renderer.\<close>

datatype arg = AVal pyval | AStr string | AStrs "string list" | AErr error

definition digit_char :: "nat \<Rightarrow> char" where
  "digit_char n = ''0123456789'' ! n"

fun dec_nat :: "nat \<Rightarrow> string" where
  "dec_nat n = (if n < 10 then [digit_char n] else dec_nat (n div 10) @ [digit_char (n mod 10)])"

declare dec_nat.simps [simp del]

text \<open>Python's \<^verbatim>\<open>str(v)\<close>, which \<^verbatim>\<open>"%s" % v\<close> and \<^verbatim>\<open>"{x}".format(x = v)\<close> apply.\<close>

fun py_str :: "pyval \<Rightarrow> string" where
  "py_str PNone = ''None''"
| "py_str (PBool b) = (if b then ''True'' else ''False'')"
| "py_str (PInt i) = (if i < 0 then CHR ''-'' # dec_nat (nat (- i)) else dec_nat (nat i))"
| "py_str (PStr s) = s"

subsection \<open>posixpath\<close>

text \<open>
  \<^verbatim>\<open>osp.join(a, b)\<close> for two components: an absolute \<open>b\<close> replaces \<open>a\<close>; otherwise a
  separator is inserted unless \<open>a\<close> is empty or already ends with one.
\<close>

definition osp_join :: "string \<Rightarrow> string \<Rightarrow> string" where
  "osp_join a b =
     (if b \<noteq> [] \<and> hd b = CHR ''/'' then b
      else if a = [] \<or> last a = CHR ''/'' then a @ b
      else a @ ''/'' @ b)"

text \<open>\<^verbatim>\<open>osp.basename(p)\<close>: everything after the last separator.\<close>

definition osp_basename :: "string \<Rightarrow> string" where
  "osp_basename p = rev (takeWhile (\<lambda>c. c \<noteq> CHR ''/'') (rev p))"

text \<open>The part of \<open>p\<close> up to and including the last separator (\<^verbatim>\<open>p[:i]\<close> in posixpath).\<close>

definition path_head :: "string \<Rightarrow> string" where
  "path_head p = rev (dropWhile (\<lambda>c. c \<noteq> CHR ''/'') (rev p))"

definition rstrip_slash :: "string \<Rightarrow> string" where
  "rstrip_slash s = rev (dropWhile (\<lambda>c. c = CHR ''/'') (rev s))"

text \<open>
  \<^verbatim>\<open>osp.dirname(p)\<close>: the head, with trailing separators removed unless the head consists
  of separators only.
\<close>

definition osp_dirname :: "string \<Rightarrow> string" where
  "osp_dirname p =
     (let h = path_head p
      in if h \<noteq> [] \<and> (\<exists>c \<in> set h. c \<noteq> CHR ''/'') then rstrip_slash h else h)"

text \<open>
  \<^verbatim>\<open>osp.splitext(p)\<close>: the extension starts at the last dot of the last component,
  provided some character other than a dot precedes it there; otherwise the extension
  is empty.
\<close>

definition splitext_name :: "string \<Rightarrow> string \<times> string" where
  "splitext_name t =
     (let e = takeWhile (\<lambda>c. c \<noteq> CHR ''.'') (rev t);
          r = take (length t - length e - 1) t
      in if CHR ''.'' \<in> set t \<and> (\<exists>c \<in> set r. c \<noteq> CHR ''.'')
         then (r, CHR ''.'' # rev e) else (t, []))"

definition osp_splitext :: "string \<Rightarrow> string \<times> string" where
  "osp_splitext p =
     (let (r, e) = splitext_name (osp_basename p) in (path_head p @ r, e))"

subsection \<open>fnmatch and glob\<close>

text \<open>
  \<^verbatim>\<open>fnmatch\<close> on a file name: \<open>*\<close> matches any run of characters, \<open>?\<close> one character,
  every other character itself. (The patterns of this program, \<^verbatim>\<open>*.fastq\<close>,
  \<^verbatim>\<open>filtered.fasta\<close>, \<^verbatim>\<open>filtered.group\<close>, \<^verbatim>\<open>merged.fasta\<close> and \<^verbatim>\<open>merged.group\<close>, use no
  bracket class.)
\<close>

fun fnmatch :: "string \<Rightarrow> string \<Rightarrow> bool" where
  "fnmatch [] [] = True"
| "fnmatch (c # cs) [] = False"
| "fnmatch [] (p # ps) = (p = CHR ''*'' \<and> fnmatch [] ps)"
| "fnmatch (c # cs) (p # ps) =
     (if p = CHR ''*'' then fnmatch (c # cs) ps \<or> fnmatch cs (p # ps)
      else if p = CHR ''?'' then fnmatch cs ps
      else c = p \<and> fnmatch cs ps)"

definition ishidden :: "string \<Rightarrow> bool" where
  "ishidden n = (n \<noteq> [] \<and> hd n = CHR ''.'')"

text \<open>\<^verbatim>\<open>glob\<close> lists a directory entry when it matches and is not hidden from the pattern.\<close>

definition glob_name :: "string \<Rightarrow> string \<Rightarrow> bool" where
  "glob_name pat n = (fnmatch n pat \<and> (ishidden pat \<or> \<not> ishidden n))"

subsection \<open>The file store\<close>

datatype node = File string | Dir

type_synonym store = "(string \<times> node) list"

definition lookup :: "store \<Rightarrow> string \<Rightarrow> node option" where
  "lookup s p = map_of s p"

text \<open>\<^verbatim>\<open>osp.exists\<close>\<close>

definition osp_exists :: "store \<Rightarrow> string \<Rightarrow> bool" where
  "osp_exists s p = (lookup s p \<noteq> None)"

definition isfile :: "store \<Rightarrow> string \<Rightarrow> bool" where
  "isfile s p = (case lookup s p of Some (File x) \<Rightarrow> True | _ \<Rightarrow> False)"

definition isdir :: "store \<Rightarrow> string \<Rightarrow> bool" where
  "isdir s p = (lookup s p = Some Dir)"

definition put :: "string \<Rightarrow> node \<Rightarrow> store \<Rightarrow> store" where
  "put p n s = (p, n) # filter (\<lambda>e. fst e \<noteq> p) s"

definition remove :: "string \<Rightarrow> store \<Rightarrow> store" where
  "remove p s = filter (\<lambda>e. fst e \<noteq> p) s"

definition is_under :: "string \<Rightarrow> string \<Rightarrow> bool" where
  "is_under d p = (p = d \<or> take (Suc (length d)) p = d @ ''/'')"

text \<open>\<^verbatim>\<open>shutil.rmtree(d)\<close>: the directory and everything below it.\<close>

definition rmtree :: "string \<Rightarrow> store \<Rightarrow> store" where
  "rmtree d s = filter (\<lambda>e. \<not> is_under d (fst e)) s"

text \<open>
  The directories a recursive glob below \<open>root\<close> searches: \<open>root\<close> itself when it is a
  directory, and every directory that is not hidden and whose parent is searched.
\<close>

function walked :: "store \<Rightarrow> string \<Rightarrow> string \<Rightarrow> bool" where
  "walked s root d =
     (if \<not> isdir s d then False
      else if d = root then True
      else if ishidden (osp_basename d) then False
      else if length (osp_dirname d) < length d then walked s root (osp_dirname d)
      else False)"
  by pat_completeness auto
termination
  by (relation "measure (\<lambda>(s, root, d). length d)") auto

declare walked.simps [simp del]

text \<open>
  \<^verbatim>\<open>get_files(dir, pattern)\<close>: the entries matching \<open>pattern\<close> in every directory searched
  below \<open>dir\<close>. The order of the result is the store's.
\<close>

definition get_files :: "store \<Rightarrow> string \<Rightarrow> string \<Rightarrow> string list" where
  "get_files s dir pat =
     filter (\<lambda>p. walked s dir (osp_dirname p) \<and> glob_name pat (osp_basename p))
       (remdups (map fst s))"


section \<open>World, failures and sequencing\<close>

datatype level = INFO | SUCCESS | WARN | ERROR

text \<open>
  What a run leaves behind besides files: log lines (format string and arguments),
  commands handed to the process runner with their working directory, workspaces
  acquired, templates rendered with the configuration handed to the renderer, the calls
  of \<^verbatim>\<open>write\<close> (path and content), and files copied or moved (source and destination as
  passed).
\<close>

datatype event =
    Log level string "arg list"
  | Exec string string
  | MkTemp string
  | Render string "(string \<times> arg) list"
  | Write string string
  | Copy string string
  | Move string string

datatype 'a res = Ret 'a | Exc error

record world =
  fs :: store
  trace :: "event list"
  fresh :: nat

type_synonym 'a io = "world \<Rightarrow> 'a res \<times> world"

definition io_ret :: "'a \<Rightarrow> 'a io" where
  "io_ret x w = (Ret x, w)"

definition io_raise :: "error \<Rightarrow> 'a io" where
  "io_raise e w = (Exc e, w)"

definition io_bind :: "'a io \<Rightarrow> ('a \<Rightarrow> 'b io) \<Rightarrow> 'b io" where
  "io_bind m f w = (case m w of (Ret x, w') \<Rightarrow> f x w' | (Exc e, w') \<Rightarrow> (Exc e, w'))"

definition io_seq :: "'a io \<Rightarrow> 'b io \<Rightarrow> 'b io" where
  "io_seq m n = io_bind m (\<lambda>_. n)"

text \<open>A \<^verbatim>\<open>with\<close> block's exit: the cleanup runs on every path out of the body.\<close>

definition io_finally :: "'a io \<Rightarrow> unit io \<Rightarrow> 'a io" where
  "io_finally m cleanup w =
     (case m w of (r, w') \<Rightarrow>
        (case cleanup w' of (Ret _, w'') \<Rightarrow> (r, w'') | (Exc e, w'') \<Rightarrow> (Exc e, w'')))"

text \<open>\<^verbatim>\<open>try: ... except PopenError as e: ...\<close>: no other exception is handled.\<close>

definition except_PopenError :: "unit io \<Rightarrow> (error \<Rightarrow> unit io) \<Rightarrow> unit io" where
  "except_PopenError m h w =
     (case m w of (Exc (PopenError k cmd), w') \<Rightarrow> h (PopenError k cmd) w' | rw \<Rightarrow> rw)"

definition logger :: "level \<Rightarrow> string \<Rightarrow> arg list \<Rightarrow> unit io" where
  "logger lvl fmt args w = (Ret (), w\<lparr>trace := trace w @ [Log lvl fmt args]\<rparr>)"

definition io_exists :: "string \<Rightarrow> bool io" where
  "io_exists p w = (Ret (osp_exists (fs w) p), w)"

definition io_get_files :: "string \<Rightarrow> string \<Rightarrow> string list io" where
  "io_get_files dir pat w = (Ret (get_files (fs w) dir pat), w)"

subsection \<open>Collaborators\<close>

text \<open>
  An external process, given its command, its working directory and the file store,
  ends with an exit status and leaves a store.
\<close>

record env =
  run_process :: "string \<Rightarrow> string \<Rightarrow> store \<Rightarrow> int \<times> store"
  render_template :: "string \<Rightarrow> (string \<times> arg) list \<Rightarrow> string option"
  install_silva :: "world \<Rightarrow> unit res \<times> world"
  temp_name :: "nat \<Rightarrow> string"
  random_str :: "nat \<Rightarrow> string"
  settings :: "string \<Rightarrow> pyval"
  path_cache :: string
  path_data :: string
  default_data_dir :: string
  csv_reader :: "string \<Rightarrow> string list list"
  auto_typecast :: "string \<Rightarrow> pyval"

text \<open>The defaults of \<^verbatim>\<open>const.py\<close> that the pipeline reads (\<open>jobs\<close> comes from the environment).\<close>

definition DEFAULT :: "pyval \<Rightarrow> string \<Rightarrow> pyval" where
  "DEFAULT cpu_count k =
     (if k = ''jobs'' then cpu_count
      else if k = ''filter_chunks'' then PInt 8
      else if k = ''quality_average'' then PInt 35
      else if k = ''maximum_ambiguity'' then PInt 0
      else if k = ''maximum_homopolymers'' then PInt 8
      else if k = ''silva_version'' then PStr ''138''
      else if k = ''silva_seed_pcr_start'' then PInt 6388
      else if k = ''silva_seed_pcr_end'' then PInt 13861
      else PNone)"

text \<open>
  \<^verbatim>\<open>shell(command)\<close> of a \<^verbatim>\<open>ShellEnvironment\<close>, in working directory \<open>cwd\<close>. No call of the
  module passes \<^verbatim>\<open>raise_err = False\<close>, so the runner raises \<^verbatim>\<open>PopenError\<close> for every
  non-zero exit status and returns the status 0 otherwise; a working directory that is
  missing raises \<^verbatim>\<open>FileNotFoundError\<close> before any process starts.
\<close>

definition shell :: "env \<Rightarrow> string \<Rightarrow> string \<Rightarrow> int io" where
  "shell e cwd cmd w =
     (if \<not> isdir (fs w) cwd
      then (Exc (FileNotFoundError cwd), w\<lparr>trace := trace w @ [Exec cmd cwd]\<rparr>)
      else (if fst (run_process e cmd cwd (fs w)) = 0
              then Ret (fst (run_process e cmd cwd (fs w)))
              else Exc (PopenError (fst (run_process e cmd cwd (fs w))) cmd),
            w\<lparr>fs := snd (run_process e cmd cwd (fs w)), trace := trace w @ [Exec cmd cwd]\<rparr>))"

subsection \<open>File-system helpers\<close>

text \<open>
  \<^verbatim>\<open>makedirs(p, exist_ok = True)\<close> creates \<open>p\<close> and the missing directories above it and
  leaves an existing entry alone.
\<close>

function makedirs_store :: "string \<Rightarrow> store \<Rightarrow> store" where
  "makedirs_store p s =
     (if osp_exists s p then s
      else if length (osp_dirname p) < length p \<and> osp_dirname p \<noteq> []
        then put p Dir (makedirs_store (osp_dirname p) s)
      else put p Dir s)"
  by pat_completeness auto
termination
  by (relation "measure (\<lambda>(p, s). length p)") auto

declare makedirs_store.simps [simp del]

definition makedirs :: "string \<Rightarrow> unit io" where
  "makedirs p w = (Ret (), w\<lparr>fs := makedirs_store p (fs w)\<rparr>)"

text \<open>\<^verbatim>\<open>get_data_dir(NAME, data_dir)\<close>: the given directory or the default one, created if absent.\<close>

definition data_dir_or_default :: "env \<Rightarrow> string option \<Rightarrow> string" where
  "data_dir_or_default e data_dir =
     (case data_dir of None \<Rightarrow> default_data_dir e
      | Some d \<Rightarrow> if d = [] then default_data_dir e else d)"

definition get_data_dir :: "env \<Rightarrow> string option \<Rightarrow> string io" where
  "get_data_dir e data_dir =
     (let d = data_dir_or_default e data_dir in io_seq (makedirs d) (io_ret d))"

text \<open>
  \<^verbatim>\<open>tempfile.mkdtemp(dir = root)\<close>: a new directory below \<open>root\<close>, which has to be a
  directory.
\<close>

definition mkdtemp :: "env \<Rightarrow> string \<Rightarrow> string io" where
  "mkdtemp e root w =
     (if \<not> isdir (fs w) root then (Exc (FileNotFoundError root), w)
      else let d = osp_join root (temp_name e (fresh w))
           in (Ret d, w\<lparr>fs := put d Dir (fs w), trace := trace w @ [MkTemp d],
                          fresh := Suc (fresh w)\<rparr>))"

definition rmtree_io :: "string \<Rightarrow> unit io" where
  "rmtree_io d w = (Ret (), w\<lparr>fs := rmtree d (fs w)\<rparr>)"

text \<open>\<^verbatim>\<open>with make_temp_dir(root_dir = CACHE) as tmp_dir: body\<close>\<close>

definition make_temp_dir :: "env \<Rightarrow> (string \<Rightarrow> 'a io) \<Rightarrow> 'a io" where
  "make_temp_dir e body =
     io_bind (mkdtemp e (path_cache e)) (\<lambda>tmp_dir. io_finally (body tmp_dir) (rmtree_io tmp_dir))"

definition get_random_str :: "env \<Rightarrow> string io" where
  "get_random_str e w = (Ret (random_str e (fresh w)), w\<lparr>fresh := Suc (fresh w)\<rparr>)"

text \<open>
  \<^verbatim>\<open>write(path, content)\<close> creates the file; a path that exists already is left as it is.
\<close>

definition write_file :: "string \<Rightarrow> string \<Rightarrow> unit io" where
  "write_file path content w =
     (Ret (), w\<lparr>fs := (if osp_exists (fs w) path then fs w else put path (File content) (fs w)),
                 trace := trace w @ [Write path content]\<rparr>)"

text \<open>
  Copying one regular file: into \<open>dest\<close> when that is a directory, onto \<open>dest\<close> otherwise.
  A source that is not a regular file of the store raises.
\<close>

definition copy1 :: "string \<Rightarrow> string \<Rightarrow> unit io" where
  "copy1 src dest w =
     (case lookup (fs w) src of
        Some (File c) \<Rightarrow>
          (Ret (), w\<lparr>fs := put (if isdir (fs w) dest then osp_join dest (osp_basename src) else dest)
                              (File c) (fs w),
                      trace := trace w @ [Copy src dest]\<rparr>)
      | _ \<Rightarrow> (Exc (FileNotFoundError src), w))"

text \<open>\<^verbatim>\<open>copy(*files, dest = d)\<close>\<close>

fun copy :: "string list \<Rightarrow> string \<Rightarrow> unit io" where
  "copy [] dest = io_ret ()"
| "copy (f # files) dest = io_seq (copy1 f dest) (copy files dest)"

text \<open>Moving one regular file; moving a file onto itself changes nothing.\<close>

definition move1 :: "string \<Rightarrow> string \<Rightarrow> unit io" where
  "move1 src dest w =
     (case lookup (fs w) src of
        Some (File c) \<Rightarrow>
          (let target = (if isdir (fs w) dest then osp_join dest (osp_basename src) else dest)
           in (Ret (), w\<lparr>fs := (if target = src then fs w
                                  else put target (File c) (remove src (fs w))),
                         trace := trace w @ [Move src dest]\<rparr>))
      | _ \<Rightarrow> (Exc (FileNotFoundError src), w))"

text \<open>\<^verbatim>\<open>move(*files, dest = d)\<close>\<close>

fun move :: "string list \<Rightarrow> string \<Rightarrow> unit io" where
  "move [] dest = io_ret ()"
| "move (f # files) dest = io_seq (move1 f dest) (move files dest)"


section \<open>The pipeline of \<^verbatim>\<open>geomeat/data/__init__.py\<close>\<close>

subsection \<open>Dictionaries, loops and the worker pool\<close>

text \<open>\<^verbatim>\<open>dict(zip(keys, values))\<close>; on a repeated key the later entry is the one read.\<close>

definition dict_from_list :: "string list \<Rightarrow> 'v list \<Rightarrow> (string \<times> 'v) list" where
  "dict_from_list keys vals = zip keys vals"

definition getitem :: "(string \<times> 'v) list \<Rightarrow> string \<Rightarrow> 'v io" where
  "getitem d k = (case map_of (rev d) k of None \<Rightarrow> io_raise (KeyError k) | Some v \<Rightarrow> io_ret v)"

definition itervalues :: "(string \<times> 'v) list \<Rightarrow> 'v list" where
  "itervalues d = map snd d"

text \<open>\<^verbatim>\<open>kwargs.get("jobs", settings.get("jobs"))\<close>\<close>

definition kwargs_get_jobs :: "env \<Rightarrow> pyval option \<Rightarrow> pyval" where
  "kwargs_get_jobs e kw = (case kw of Some j \<Rightarrow> j | None \<Rightarrow> settings e ''jobs'')"

text \<open>\<^verbatim>\<open>osp.join(dir, v)\<close> for a cell \<open>v\<close>: only a string is a path component.\<close>

definition join_val :: "string \<Rightarrow> pyval \<Rightarrow> string io" where
  "join_val dir v = (case v of PStr x \<Rightarrow> io_ret (osp_join dir x) | _ \<Rightarrow> io_raise TypeError)"

text \<open>A \<^verbatim>\<open>for\<close> loop that collects one result per element and stops at the first exception.\<close>

fun io_map :: "('a \<Rightarrow> 'b io) \<Rightarrow> 'a list \<Rightarrow> 'b list io" where
  "io_map f [] = io_ret []"
| "io_map f (x # xs) = io_bind (f x) (\<lambda>r. io_bind (io_map f xs) (\<lambda>rs. io_ret (r # rs)))"

text \<open>
  \<^verbatim>\<open>list(tq.tqdm(pool.imap(function, items)))\<close>: the results are read in submission
  order, and reading the result of an item that raised re-raises its exception in the
  caller. The workers are modelled one after the other in submission order; what items
  behind a failing one did in the meantime is left out.
\<close>

definition pool_imap :: "('a \<Rightarrow> 'b io) \<Rightarrow> 'a list \<Rightarrow> 'b list io" where
  "pool_imap function items = io_map function items"

function chunks_of :: "nat \<Rightarrow> 'a list \<Rightarrow> 'a list list" where
  "chunks_of n xs = (if n = 0 \<or> xs = [] then [] else take n xs # chunks_of n (drop n xs))"
  by pat_completeness auto
termination
  by (relation "measure (\<lambda>(n, xs). length xs)") auto

declare chunks_of.simps [simp del]

text \<open>\<^verbatim>\<open>chunkify(arr, n)\<close>: slices \<^verbatim>\<open>arr[i:i + n]\<close> for \<^verbatim>\<open>i in range(0, len(arr), n)\<close>.\<close>

definition chunkify :: "'a list \<Rightarrow> pyval \<Rightarrow> 'a list list io" where
  "chunkify arr n =
     (case n of
        PInt k \<Rightarrow> if k = 0 then io_raise ValueError
                  else if k < 0 then io_ret [] else io_ret (chunks_of (nat k) arr)
      | PBool b \<Rightarrow> if b then io_ret (chunks_of 1 arr) else io_raise ValueError
      | _ \<Rightarrow> io_raise TypeError)"

definition str_join :: "string \<Rightarrow> string list \<Rightarrow> string" where
  "str_join sep xs = (case xs of [] \<Rightarrow> [] | y # ys \<Rightarrow> y @ concat (map (\<lambda>z. sep @ z) ys))"

subsection \<open>Loading the dataset\<close>

definition get_csv_data :: "env \<Rightarrow> bool \<Rightarrow> (string \<times> pyval) list list io" where
  "get_csv_data e sample w =
     (let path_data = osp_join (path_data e) (if sample then ''sample.csv'' else ''data.csv'')
      in case lookup (fs w) path_data of
           Some (File text) \<Rightarrow>
             (case csv_reader e text of
                [] \<Rightarrow> (Ret [], w)
              | header # rows \<Rightarrow>
                  (Ret (map (\<lambda>x. dict_from_list header (map (auto_typecast e) x)) rows), w))
         | _ \<Rightarrow> (Exc (FileNotFoundError path_data), w))"

subsection \<open>Fetch\<close>

definition get_fastq ::
  "env \<Rightarrow> pyval option \<Rightarrow> (string \<times> pyval) list \<Rightarrow> string option \<Rightarrow> unit io" where
  "get_fastq e kw_jobs meta data_dir0 =
     io_bind (getitem meta ''sra'') (\<lambda>sra.
     io_bind (getitem meta ''layout'') (\<lambda>layout.
     let jobs = kwargs_get_jobs e kw_jobs in
     io_bind (get_data_dir e data_dir0) (\<lambda>data_dir.
     io_bind (join_val data_dir sra) (\<lambda>sra_dir.
     io_seq (logger INFO ''Checking if SRA %s is prefetched...'' [AVal sra]) (
     let path_sra = osp_join sra_dir (py_str sra @ ''.sra'');
         download =
           io_seq (logger INFO ''Checking if FASTQ files for SRA %s has been downloaded...'' [AVal sra]) (
           io_bind (io_get_files sra_dir ''*.fastq'') (\<lambda>fastq_files.
             if fastq_files = [] then
               io_seq (logger INFO ''Downloading FASTQ file(s) for SRA %s...'' [AVal sra]) (
               let args = (if layout = PStr ''paired'' then ''--split-files'' else [])
               in io_bind (shell e sra_dir
                     (''fasterq-dump --threads '' @ py_str jobs @ '' '' @ args @ '' '' @ py_str sra))
                    (\<lambda>code.
                       if code = 0
                       then logger SUCCESS ''Successfully downloaded FASTQ file(s) for SRA %s.'' [AVal sra]
                       else logger ERROR ''Unable to download FASTQ file(s) for SRA %s.'' [AVal sra]))
             else logger WARN ''FASTQ file(s) for SRA %s already exist.'' [AVal sra]))
     in io_bind (io_exists path_sra) (\<lambda>prefetched.
          if \<not> prefetched then
            io_seq (logger INFO ''Performing prefetch for SRA %s in directory %s.'' [AVal sra, AStr sra_dir]) (
            io_bind (shell e data_dir (''prefetch -O '' @ sra_dir @ '' '' @ py_str sra)) (\<lambda>code.
              if code = 0 then
                io_seq (logger SUCCESS ''Successfully prefeteched SRA %s.'' [AVal sra]) (
                io_seq (logger INFO ''Validating SRA %s...'' [AVal sra]) (
                io_seq (logger INFO ''Performing vdb-validate for SRA %s in directory %s.''
                          [AVal sra, AStr sra_dir]) (
                io_bind (shell e data_dir (''vdb-validate '' @ sra_dir)) (\<lambda>code.
                  if code = 0 then
                    io_seq (logger SUCCESS ''Successfully validated SRA %s.'' [AVal sra]) download
                  else logger ERROR ''Unable to validate SRA %s.'' [AVal sra]))))
              else logger ERROR ''Unable to prefetech SRA %s.'' [AVal sra]))
          else io_seq (logger WARN ''SRA %s already prefeteched.'' [AVal sra]) download))))))"

text \<open>
  The keyword \<^verbatim>\<open>raise_err = False\<close> that \<^verbatim>\<open>get_data\<close> adds reaches \<^verbatim>\<open>get_fastq\<close> in its
  \<^verbatim>\<open>kwargs\<close>, where only \<^verbatim>\<open>jobs\<close> is read.
\<close>

definition get_data :: "env \<Rightarrow> pyval option \<Rightarrow> string option \<Rightarrow> bool \<Rightarrow> unit io" where
  "get_data e kw_jobs data_dir0 check =
     (let jobs = kwargs_get_jobs e kw_jobs in
      io_bind (get_data_dir e data_dir0) (\<lambda>data_dir.
      io_seq (logger INFO ''Created data directory at %s.'' [AStr data_dir]) (
      io_bind (get_csv_data e check) (\<lambda>data.
      io_seq (logger INFO ''Fetching FASTQ files...'' []) (
      io_bind (pool_imap (\<lambda>meta. get_fastq e kw_jobs meta (Some data_dir)) data) (\<lambda>results.
      io_ret ()))))))"


subsection \<open>Filter\<close>

definition get_fastq_file_line :: "string \<Rightarrow> string" where
  "get_fastq_file_line fname =
     (let prefix = fst (osp_splitext fname);
          prefix = osp_basename prefix
      in prefix @ '' '' @ fname)"

definition build_mothur_script :: "env \<Rightarrow> string \<Rightarrow> string \<Rightarrow> (string \<times> arg) list \<Rightarrow> unit io" where
  "build_mothur_script e template output config =
     io_seq (logger INFO ''Building script %s for mothur.'' [AStr template]) (
     io_bind (\<lambda>w. case render_template e template config of
                     Some text \<Rightarrow> (Ret text, w\<lparr>trace := trace w @ [Render template config]\<rparr>)
                   | None \<Rightarrow> (Exc (TemplateError template),
                              w\<lparr>trace := trace w @ [Render template config]\<rparr>))
       (\<lambda>mothur_script. write_file output mothur_script))"

text \<open>
  The dictionary that \<^verbatim>\<open>filter_fastq\<close> builds for one sample (lines 286 to 299). It always
  has these nine keys, so the \<^verbatim>\<open>pop\<close>s and \<^verbatim>\<open>get\<close>s of \<^verbatim>\<open>_mothur_filter_files\<close> find them.
\<close>

record mothur_config =
  files :: "string list"
  target_dir :: string
  sra_id :: pyval
  primer_f :: pyval
  primer_r :: pyval
  layout :: pyval
  trim_type :: pyval
  min_length :: pyval
  max_length :: pyval

text \<open>What is left of the dictionary after the five \<^verbatim>\<open>pop\<close>s.\<close>

definition popped :: "mothur_config \<Rightarrow> (string \<times> arg) list" where
  "popped c =
     [(''layout'', AVal (layout c)), (''trim_type'', AVal (trim_type c)),
      (''min_length'', AVal (min_length c)), (''max_length'', AVal (max_length c))]"

definition setitem :: "(string \<times> 'v) list \<Rightarrow> string \<Rightarrow> 'v \<Rightarrow> (string \<times> 'v) list" where
  "setitem d k v = filter (\<lambda>kv. fst kv \<noteq> k) d @ [(k, v)]"

definition config_args :: "mothur_config \<Rightarrow> arg list" where
  "config_args c =
     [AStrs (files c), AStr (target_dir c), AVal (sra_id c), AVal (primer_f c), AVal (primer_r c),
      AVal (layout c), AVal (trim_type c), AVal (min_length c), AVal (max_length c)]"

definition target_types :: "string list" where
  "target_types = [''fasta'', ''group'', ''summary'']"

definition target_path :: "string \<Rightarrow> (string \<times> string) list" where
  "target_path tdir =
     dict_from_list target_types (map (\<lambda>x. osp_join tdir (''filtered.'' @ x)) target_types)"

text \<open>The suffixes of the tool's outputs, by layout (lines 193 to 201).\<close>

definition choice :: "pyval \<Rightarrow> string list" where
  "choice lay =
     (if lay = PStr ''paired''
      then [''.trim.contigs.trim.good.fasta'', ''.contigs.good.groups'',
            ''.trim.contigs.trim.good.summary'']
      else [''.trim.good.fasta'', ''.good.group'', ''.trim.good.summary''])"

text \<open>Lines 189 to 221: what follows a zero status of the tool.\<close>

definition copy_filtered ::
  "mothur_config \<Rightarrow> string \<Rightarrow> string \<Rightarrow> (string \<times> string) list \<Rightarrow> unit io" where
  "copy_filtered c tmp_dir prefix tpath =
     io_seq (logger SUCCESS ''[SRA %s] mothur ran successfully.'' [AVal (sra_id c)]) (
     io_seq (logger INFO ''[SRA %s] Attempting to copy filtered files.'' [AVal (sra_id c)]) (
     io_seq (makedirs (target_dir c)) (
     io_bind (getitem tpath ''fasta'') (\<lambda>dest_fasta.
     io_seq (copy [osp_join tmp_dir (prefix @ choice (layout c) ! 0)] dest_fasta) (
     io_bind (getitem tpath ''group'') (\<lambda>dest_group.
     io_seq (copy [osp_join tmp_dir (prefix @ choice (layout c) ! 1)] dest_group) (
     io_bind (getitem tpath ''summary'') (\<lambda>dest_summary.
     io_seq (copy [osp_join tmp_dir (prefix @ choice (layout c) ! 2)] dest_summary) (
     logger INFO ''[SRA %s] Successfully copied filtered files at %s.''
       [AVal (sra_id c), AStr (target_dir c)])))))))))"

text \<open>Lines 184 to 223: the \<^verbatim>\<open>try\<close> block around the tool and its handler.\<close>

definition run_mothur_filter ::
  "env \<Rightarrow> mothur_config \<Rightarrow> string \<Rightarrow> string \<Rightarrow> string \<Rightarrow> (string \<times> string) list \<Rightarrow> unit io" where
  "run_mothur_filter e c tmp_dir prefix mothur_file tpath =
     except_PopenError
       (io_bind (shell e tmp_dir (''mothur '' @ mothur_file)) (\<lambda>code.
          if code = 0 then copy_filtered c tmp_dir prefix tpath else io_ret ()))
       (\<lambda>err. logger ERROR ''[SRA %s] Unable to filter files. Error: %s''
                 [AVal (sra_id c), AErr err])"

text \<open>Lines 150 to 182: the control files and the script, once the raw files are copied.\<close>

definition prepare_mothur_filter ::
  "env \<Rightarrow> pyval \<Rightarrow> mothur_config \<Rightarrow> (string \<times> arg) list \<Rightarrow> string \<Rightarrow> string \<Rightarrow> unit io" where
  "prepare_mothur_filter e jobs c config tmp_dir prefix =
     io_seq (logger INFO ''[SRA %s] Using prefix for mothur: %s'' [AVal (sra_id c), AStr prefix]) (
     io_seq (logger INFO ''[SRA %s] Setting up directory %s for preprocessing''
               [AVal (sra_id c), AStr tmp_dir]) (
     io_bind
       (if layout c = PStr ''single'' then
          (let fastq_file = osp_join tmp_dir (prefix @ ''.file'');
               fastq_data = str_join [CHR 0x0A] (map get_fastq_file_line (files c))
           in io_seq (write_file fastq_file fastq_data)
                (io_ret (setitem (setitem config ''fastq_file'' (AStr fastq_file))
                           ''group'' (AStr (osp_join tmp_dir (prefix @ ''.group''))))))
        else io_ret config) (\<lambda>config.
     io_bind
       (if layout c = PStr ''paired'' \<and> trim_type c = PStr ''false'' then
          (let oligos_file = osp_join tmp_dir ''primers.oligos'';
               oligos_data = ''primer '' @ py_str (primer_f c) @ '' '' @ py_str (primer_r c)
           in io_seq (write_file oligos_file oligos_data)
                (io_ret (setitem config ''oligos'' (AStr oligos_file))))
        else io_ret config) (\<lambda>config.
     io_seq (build_mothur_script e ''mothur/filter'' (osp_join tmp_dir ''script'')
               [(''inputdir'', AStr tmp_dir), (''prefix'', AStr prefix),
                (''processors'', AVal jobs),
                (''qaverage'', AVal (settings e ''quality_average'')),
                (''maxambig'', AVal (settings e ''maximum_ambiguity'')),
                (''maxhomop'', AVal (settings e ''maximum_homopolymers''))]) (
     logger INFO ''[SRA %s] Running mothur...'' [AVal (sra_id c)])))))"

text \<open>Lines 147 to 223: the body of the \<^verbatim>\<open>with make_temp_dir\<close> block.\<close>

definition filter_in_workspace ::
  "env \<Rightarrow> pyval \<Rightarrow> mothur_config \<Rightarrow> (string \<times> arg) list \<Rightarrow> (string \<times> string) list \<Rightarrow>
   string \<Rightarrow> unit io" where
  "filter_in_workspace e jobs c config tpath tmp_dir =
     io_seq (logger INFO ''[SRA %s] Copying FASTQ files %s for pre-processing at %s.''
               [AVal (sra_id c), AStrs (files c), AStr tmp_dir]) (
     io_seq (copy (files c) tmp_dir) (
     io_bind (get_random_str e) (\<lambda>prefix.
     io_seq (prepare_mothur_filter e jobs c config tmp_dir prefix) (
     run_mothur_filter e c tmp_dir prefix (osp_join tmp_dir ''script'') tpath))))"

definition mothur_filter_files ::
  "env \<Rightarrow> pyval option \<Rightarrow> mothur_config \<Rightarrow> string option \<Rightarrow> unit io" where
  "mothur_filter_files e kw_jobs c data_dir0 =
     io_seq (logger INFO ''Using config %s to filter files.'' (config_args c)) (
     let jobs = kwargs_get_jobs e kw_jobs in
     io_bind (get_data_dir e data_dir0) (\<lambda>data_dir.
     let config = popped c;
         tpath = target_path (target_dir c)
     in io_bind (io_map io_exists (itervalues tpath)) (\<lambda>present.
        if \<not> list_all (\<lambda>b. b) present then
          make_temp_dir e (filter_in_workspace e jobs c config tpath)
        else logger WARN ''[SRA %s] Filtered files already exists.'' [AVal (sra_id c)])))"

definition build_config :: "string \<Rightarrow> (string \<times> pyval) list \<Rightarrow> mothur_config io" where
  "build_config data_dir d =
     io_bind (getitem d ''sra'') (\<lambda>sra.
     io_bind (join_val data_dir sra) (\<lambda>sra_dir.
     io_bind (io_get_files sra_dir ''*.fastq'') (\<lambda>fastq_files.
     io_bind (getitem d ''primer_f'') (\<lambda>pf.
     io_bind (getitem d ''primer_r'') (\<lambda>pr.
     io_bind (getitem d ''layout'') (\<lambda>lay.
     io_bind (getitem d ''trimmed'') (\<lambda>trimmed.
     io_bind (getitem d ''min_length'') (\<lambda>minl.
     io_bind (getitem d ''max_length'') (\<lambda>maxl.
     io_ret \<lparr>files = fastq_files, target_dir = sra_dir, sra_id = sra,
             primer_f = pf, primer_r = pr, layout = lay, trim_type = trimmed,
             min_length = minl, max_length = maxl\<rparr>)))))))))"

text \<open>
  \<^verbatim>\<open>build_fn(_mothur_filter_files, *args, **kwargs)\<close> does not pass \<^verbatim>\<open>data_dir\<close> on, so each
  item resolves the default data directory.
\<close>

definition filter_fastq :: "env \<Rightarrow> pyval option \<Rightarrow> string option \<Rightarrow> bool \<Rightarrow> unit io" where
  "filter_fastq e kw_jobs data_dir0 check =
     (let jobs = kwargs_get_jobs e kw_jobs in
      io_bind (get_data_dir e data_dir0) (\<lambda>data_dir.
      io_bind (get_csv_data e check) (\<lambda>data.
      io_seq (logger INFO ''Building configs for mothur...'' []) (
      io_bind (io_map (build_config data_dir) data) (\<lambda>mothur_configs.
      if mothur_configs \<noteq> [] then
        io_seq (logger INFO ''Filtering files using mothur using %s jobs....'' [AVal jobs]) (
        io_bind (chunkify mothur_configs (settings e ''filter_chunks'')) (\<lambda>chunks.
        io_bind (io_map (\<lambda>chunk. pool_imap (\<lambda>c. mothur_filter_files e kw_jobs c None) chunk) chunks)
          (\<lambda>results. io_ret ())))
      else io_ret ())))))"

subsection \<open>Merge, Preprocess and the driver\<close>

text \<open>Lines 256 to 266: what follows the tool's exit in Merge.\<close>

definition promote_merged :: "string \<Rightarrow> string \<Rightarrow> string \<Rightarrow> int \<Rightarrow> unit io" where
  "promote_merged data_dir output_fasta output_group code =
     (if code = 0 then
        io_bind (io_get_files data_dir ''merged.fasta'') (\<lambda>merged_fasta.
        io_bind (io_get_files data_dir ''merged.group'') (\<lambda>merged_group.
        io_seq (move merged_fasta output_fasta) (
        io_seq (move merged_group output_group) (
        logger SUCCESS ''Successfully merged.'' []))))
      else logger ERROR ''Error merging files.'' [])"

text \<open>Lines 242 to 266: the body of the \<^verbatim>\<open>with make_temp_dir\<close> block of Merge.\<close>

definition merge_in_workspace ::
  "env \<Rightarrow> string \<Rightarrow> string list \<Rightarrow> string list \<Rightarrow> string \<Rightarrow> unit io" where
  "merge_in_workspace e data_dir filtered groups tmp_dir =
     (let output_fasta = osp_join data_dir ''merged.fasta'';
          output_group = osp_join data_dir ''merged.group'';
          mothur_file = osp_join tmp_dir ''script''
      in io_seq (build_mothur_script e ''mothur/preprocess'' mothur_file
                   [(''input_fastas'', AStrs filtered), (''input_groups'', AStrs groups),
                    (''output_fasta'', AStr output_fasta), (''output_group'', AStr output_group)]) (
         io_bind (shell e tmp_dir (''mothur '' @ mothur_file))
           (promote_merged data_dir output_fasta output_group)))"

definition merge_fastq :: "env \<Rightarrow> string option \<Rightarrow> unit io" where
  "merge_fastq e data_dir0 =
     io_bind (get_data_dir e data_dir0) (\<lambda>data_dir.
     io_seq (logger INFO ''Finding files in directory: %s'' [AStr data_dir]) (
     io_bind (io_get_files data_dir ''filtered.fasta'') (\<lambda>filtered.
     io_bind (io_get_files data_dir ''filtered.group'') (\<lambda>groups.
     if filtered \<noteq> [] \<and> groups \<noteq> [] then
       io_seq (logger INFO ''Merging %s filter and %s group files.''
                 [AVal (PInt (int (length filtered))), AVal (PInt (int (length groups)))]) (
       make_temp_dir e (merge_in_workspace e data_dir filtered groups))
     else logger WARN ''No files found to merge.'' []))))"

definition preprocess_fasta :: "env \<Rightarrow> string option \<Rightarrow> unit io" where
  "preprocess_fasta e data_dir0 =
     io_bind (get_data_dir e data_dir0) (\<lambda>data_dir.
     let merged_fasta = osp_join data_dir ''merged.fasta'';
         merged_group = osp_join data_dir ''merged.group''
     in make_temp_dir e (\<lambda>tmp_dir.
          let mothur_file = osp_join tmp_dir ''script'' in
          io_seq (build_mothur_script e ''mothur/preprocess'' mothur_file
                    [(''merged_fasta'', AStr merged_fasta), (''merged_group'', AStr merged_group)]) (
          io_bind (shell e tmp_dir (''mothur '' @ mothur_file)) (\<lambda>code.
            if code = 0 then io_ret () else logger ERROR ''Error merging files.'' []))))"

definition preprocess_data :: "env \<Rightarrow> pyval option \<Rightarrow> string option \<Rightarrow> bool \<Rightarrow> unit io" where
  "preprocess_data e kw_jobs data_dir0 check =
     io_bind (get_data_dir e data_dir0) (\<lambda>data_dir.
     io_seq (logger INFO ''Attempting to filter FASTQ files...'' []) (
     io_seq (filter_fastq e kw_jobs (Some data_dir) check) (
     io_seq (logger INFO ''Merging FASTQs...'' []) (
     io_seq (merge_fastq e (Some data_dir)) (
     io_seq (logger INFO ''Installing SILVA...'' []) (
     io_seq (install_silva e) (
     io_seq (logger INFO ''Pre-processing FASTA + Group files...'' []) (
     preprocess_fasta e (Some data_dir)))))))))"

subsection \<open>Observations on a trace\<close>

fun is_exec :: "event \<Rightarrow> bool" where
  "is_exec (Exec cmd cwd) = True"
| "is_exec _ = False"

definition execs :: "world \<Rightarrow> event list" where
  "execs w = filter is_exec (trace w)"

text \<open>A store extends another when it keeps every entry of it.\<close>

definition extends :: "store \<Rightarrow> store \<Rightarrow> bool" where
  "extends s s' = (\<forall>q. lookup s q \<noteq> None \<longrightarrow> lookup s' q = lookup s q)"

text \<open>The events a run added to the trace.\<close>

definition new_events :: "world \<Rightarrow> world \<Rightarrow> event list" where
  "new_events w w' = drop (length (trace w)) (trace w')"

text \<open>An action only ever appends to the trace.\<close>

definition appends :: "'a io \<Rightarrow> bool" where
  "appends m = (\<forall>w. \<exists>t. trace (snd (m w)) = trace w @ t)"

fun is_error_log :: "event \<Rightarrow> bool" where
  "is_error_log (Log lvl fmt args) = (lvl = ERROR)"
| "is_error_log _ = False"

text \<open>An action never lets a \<^verbatim>\<open>PopenError\<close> out.\<close>

definition never_popen :: "'a io \<Rightarrow> bool" where
  "never_popen m = (\<forall>w k cmd. fst (m w) \<noteq> Exc (PopenError k cmd))"

text \<open>An action always returns normally.\<close>

definition returns :: "'a io \<Rightarrow> bool" where
  "returns m = (\<forall>w. \<exists>x. fst (m w) = Ret x)"


section \<open>Sample runs\<close>

text \<open>
  A concrete environment: every external process exits with status 0 and leaves the
  store alone, the renderer returns the template name, nothing is to be installed.
\<close>

definition env0 :: env where
  "env0 = \<lparr>run_process = (\<lambda>cmd cwd s. (0, s)),
           render_template = (\<lambda>t c. Some t),
           install_silva = io_ret (),
           temp_name = (\<lambda>n. ''tmp'' @ dec_nat n),
           random_str = (\<lambda>n. ''rnd'' @ dec_nat n),
           settings = DEFAULT (PInt 4),
           path_cache = ''/cache'',
           path_data = ''/repo/data'',
           default_data_dir = ''/data'',
           csv_reader = (\<lambda>t. []),
           auto_typecast = PStr\<rparr>"

text \<open>A sample that has been fetched: its archive and one FASTQ file are present.\<close>

definition store0 :: store where
  "store0 = [(''/data'', Dir), (''/data/SRR1'', Dir), (''/data/SRR1/SRR1.sra'', File ''a''),
     (''/data/SRR1/SRR1.fastq'', File ''q'')]"

definition w0 :: world where
  "w0 = \<lparr>fs = store0, trace = [], fresh = 0\<rparr>"

definition meta0 :: "(string \<times> pyval) list" where
  "meta0 = [(''sra'', PStr ''SRR1''), (''layout'', PStr ''single'')]"

text \<open>A sample whose archive is cached but not yet extracted, and one not fetched at all.\<close>

definition store1 :: store where
  "store1 = [(''/data'', Dir), (''/data/SRR1'', Dir), (''/data/SRR1/SRR1.sra'', File ''a'')]"

definition w1 :: world where
  "w1 = \<lparr>fs = store1, trace = [], fresh = 0\<rparr>"

definition w2 :: world where
  "w2 = \<lparr>fs = [(''/data'', Dir)], trace = [], fresh = 0\<rparr>"

text \<open>A single-layout work item for the fetched sample, and stores for the Filter gate.\<close>

definition cfg0 :: mothur_config where
  "cfg0 = \<lparr>files = [''/data/SRR1/SRR1.fastq''], target_dir = ''/data/SRR1'',
            sra_id = PStr ''SRR1'', primer_f = PStr ''GTGCCAGC'', primer_r = PStr ''GGACTAC'',
            layout = PStr ''single'', trim_type = PStr ''false'',
            min_length = PInt 200, max_length = PInt 300\<rparr>"

definition store_filtered :: store where
  "store_filtered = [(''/cache'', Dir), (''/data'', Dir), (''/data/SRR1'', Dir),
     (''/data/SRR1/SRR1.fastq'', File ''q''),
     (''/data/SRR1/filtered.fasta'', File ''f''), (''/data/SRR1/filtered.group'', File ''g''),
     (''/data/SRR1/filtered.summary'', File ''s'')]"

definition store_partial :: store where
  "store_partial = [(''/cache'', Dir), (''/data'', Dir), (''/data/SRR1'', Dir),
     (''/data/SRR1/SRR1.fastq'', File ''q''),
     (''/data/SRR1/filtered.fasta'', File ''f'')]"

definition w_partial :: world where
  "w_partial = \<lparr>fs = store_partial, trace = [], fresh = 0\<rparr>"






text \<open>
  A dataset of two single-layout samples whose raw files are present, read by an
  environment whose tool exits with status 0 without producing any output.
\<close>

definition env_csv :: env where
  "env_csv = env0\<lparr>csv_reader := (\<lambda>text.
     [[''sra'', ''layout'', ''primer_f'', ''primer_r'', ''trimmed'', ''min_length'', ''max_length''],
      [''SRR1'', ''single'', ''GTGCCAGC'', ''GGACTAC'', ''true'', ''200'', ''300''],
      [''SRR3'', ''single'', ''GTGCCAGC'', ''GGACTAC'', ''true'', ''200'', ''300'']])\<rparr>"

definition store_batch :: store where
  "store_batch = [(''/cache'', Dir), (''/repo/data/data.csv'', File ''rows''),
     (''/data'', Dir), (''/data/SRR1'', Dir), (''/data/SRR1/SRR1.fastq'', File ''q1''),
     (''/data/SRR3'', Dir), (''/data/SRR3/SRR3.fastq'', File ''q3'')]"

definition w_batch :: world where
  "w_batch = \<lparr>fs = store_batch, trace = [], fresh = 0\<rparr>"

text \<open>The rows of that dataset as loaded, and the work item built for its first sample.\<close>

definition rows_batch :: "(string \<times> pyval) list list" where
  "rows_batch =
     [[(''sra'', PStr ''SRR1''), (''layout'', PStr ''single''), (''primer_f'', PStr ''GTGCCAGC''),
       (''primer_r'', PStr ''GGACTAC''), (''trimmed'', PStr ''true''), (''min_length'', PStr ''200''),
       (''max_length'', PStr ''300'')],
      [(''sra'', PStr ''SRR3''), (''layout'', PStr ''single''), (''primer_f'', PStr ''GTGCCAGC''),
       (''primer_r'', PStr ''GGACTAC''), (''trimmed'', PStr ''true''), (''min_length'', PStr ''200''),
       (''max_length'', PStr ''300'')]]"

definition cfg_batch :: "string \<Rightarrow> mothur_config" where
  "cfg_batch sra = \<lparr>files = [''/data/'' @ sra @ ''/'' @ sra @ ''.fastq''],
       target_dir = ''/data/'' @ sra,
       sra_id = PStr sra, primer_f = PStr ''GTGCCAGC'', primer_r = PStr ''GGACTAC'',
       layout = PStr ''single'', trim_type = PStr ''true'',
       min_length = PStr ''200'', max_length = PStr ''300''\<rparr>"

text \<open>
  An environment whose tool exits with status 0 and leaves, in its working directory, the
  three outputs of a single-layout run under the prefix \<^verbatim>\<open>rnd1\<close>; and a world in which the
  three filtered files of the sample are present.
\<close>

definition env_mothur :: env where
  "env_mothur = env0\<lparr>run_process := (\<lambda>cmd cwd s.
     (0, put (osp_join cwd ''rnd1.trim.good.fasta'') (File ''F'')
           (put (osp_join cwd ''rnd1.good.group'') (File ''G'')
             (put (osp_join cwd ''rnd1.trim.good.summary'') (File ''S'') s))))\<rparr>"

definition w_filtered :: world where
  "w_filtered = \<lparr>fs = store_filtered, trace = [], fresh = 0\<rparr>"

section \<open>Properties\<close>

lemmas io_defs = io_ret_def io_raise_def io_bind_def io_seq_def logger_def io_exists_def
  io_get_files_def getitem_def join_val_def
subsection \<open>The store\<close>

lemma map_of_filter_fst:
  "map_of (filter (\<lambda>e. fst e \<noteq> p) s) q = (if q = p then None else map_of s q)"
  by (induction s) auto

lemma lookup_put: "lookup (put p n s) q = (if q = p then Some n else lookup s q)"
  by (simp add: lookup_def put_def map_of_filter_fst)

lemma lookup_remove: "lookup (remove p s) q = (if q = p then None else lookup s q)"
  by (simp add: lookup_def remove_def map_of_filter_fst)

lemma in_keys_iff: "p \<in> set (map fst s) \<longleftrightarrow> lookup s p \<noteq> None"
  by (simp add: lookup_def map_of_eq_None_iff)

text \<open>Creating directories never touches an entry that is already there.\<close>

lemma makedirs_store_keeps:
  "lookup s q \<noteq> None \<Longrightarrow> lookup (makedirs_store p s) q = lookup s q"
proof (induction p s rule: makedirs_store.induct)
  case (1 p s)
  show ?case
  proof (cases "osp_exists s p")
    case True
    then show ?thesis by (simp add: makedirs_store.simps)
  next
    case False
    with "1.prems" have ne: "q \<noteq> p" by (auto simp: osp_exists_def)
    show ?thesis
    proof (cases "length (osp_dirname p) < length p \<and> osp_dirname p \<noteq> []")
      case True
      with \<open>\<not> osp_exists s p\<close> "1.IH" "1.prems" ne show ?thesis
        by (subst makedirs_store.simps) (simp add: lookup_put)
    next
      case False
      with \<open>\<not> osp_exists s p\<close> ne show ?thesis
        by (subst makedirs_store.simps) (auto simp add: lookup_put)
    qed
  qed
qed

lemma extends_makedirs: "extends s (makedirs_store p s)"
  by (simp add: extends_def makedirs_store_keeps)

lemma osp_exists_extends: "extends s s' \<Longrightarrow> osp_exists s p \<Longrightarrow> osp_exists s' p"
  by (auto simp: extends_def osp_exists_def)

lemma walked_extends: "extends s s' \<Longrightarrow> walked s root d \<Longrightarrow> walked s' root d"
proof (induction s root d rule: walked.induct)
  case (1 s root d)
  from "1.prems"(2) have d: "isdir s d"
    by (subst (asm) walked.simps) (auto split: if_splits)
  with "1.prems"(1) have d': "isdir s' d"
    by (auto simp: extends_def isdir_def)
  show ?case
  proof (cases "d = root")
    case True
    with d' show ?thesis by (subst walked.simps) simp
  next
    case False
    with "1.prems"(2) d
    have a: "\<not> ishidden (osp_basename d)" "length (osp_dirname d) < length d"
      "walked s root (osp_dirname d)"
      by (subst (asm) walked.simps, auto split: if_splits)+
    with "1.IH" d False "1.prems"(1) have "walked s' root (osp_dirname d)" by simp
    with d' False a show ?thesis by (subst walked.simps) simp
  qed
qed

lemma get_files_extends:
  "extends s s' \<Longrightarrow> set (get_files s dir pat) \<subseteq> set (get_files s' dir pat)"
  unfolding get_files_def using walked_extends in_keys_iff
  by (auto simp: extends_def)

lemma get_data_dir_eq:
  "get_data_dir e dd w =
     (Ret (data_dir_or_default e dd), w\<lparr>fs := makedirs_store (data_dir_or_default e dd) (fs w)\<rparr>)"
  by (simp add: get_data_dir_def Let_def io_defs makedirs_def)

lemma execs_simps [simp]:
  "execs (w\<lparr>trace := t\<rparr>) = filter is_exec t"
  "execs (w\<lparr>fs := s\<rparr>) = execs w"
  by (simp_all add: execs_def)

subsection \<open>Traces only grow\<close>

lemma appendsI: "(\<And>w. \<exists>t. trace (snd (m w)) = trace w @ t) \<Longrightarrow> appends m"
  by (simp add: appends_def)

lemma appendsD: "appends m \<Longrightarrow> \<exists>t. trace (snd (m w)) = trace w @ t"
  by (simp add: appends_def)

lemma appends_ret [intro!]: "appends (io_ret x)"
  by (simp add: appends_def io_ret_def)

lemma appends_raise [intro!]: "appends (io_raise x)"
  by (simp add: appends_def io_raise_def)

lemma appends_bind [intro!]:
  assumes "appends m" and "\<And>x. appends (f x)"
  shows "appends (io_bind m f)"
proof (rule appendsI)
  fix w
  obtain r w1 where m: "m w = (r, w1)" by fastforce
  from appendsD [OF assms(1), of w] m obtain t where t: "trace w1 = trace w @ t" by auto
  show "\<exists>t. trace (snd (io_bind m f w)) = trace w @ t"
  proof (cases r)
    case (Ret x)
    from appendsD [OF assms(2), of x w1] obtain u where "trace (snd (f x w1)) = trace w1 @ u" by auto
    with Ret m t show ?thesis by (simp add: io_bind_def)
  next
    case (Exc err)
    with m t show ?thesis by (simp add: io_bind_def)
  qed
qed

lemma appends_seq [intro!]: "appends m \<Longrightarrow> appends n \<Longrightarrow> appends (io_seq m n)"
  by (auto simp: io_seq_def)

lemma appends_if [intro!]: "appends m \<Longrightarrow> appends n \<Longrightarrow> appends (if b then m else n)"
  by simp

lemma appends_finally [intro!]:
  assumes "appends m" and "appends c"
  shows "appends (io_finally m c)"
proof (rule appendsI)
  fix w
  obtain r w1 where m: "m w = (r, w1)" by fastforce
  obtain r2 w2 where c: "c w1 = (r2, w2)" by fastforce
  from appendsD [OF assms(1), of w] m obtain t where t: "trace w1 = trace w @ t" by auto
  from appendsD [OF assms(2), of w1] c obtain u where u: "trace w2 = trace w1 @ u" by auto
  from m c t u show "\<exists>t. trace (snd (io_finally m c w)) = trace w @ t"
    by (cases r2) (simp_all add: io_finally_def)
qed

lemma appends_except [intro!]:
  assumes "appends m" and "\<And>x. appends (h x)"
  shows "appends (except_PopenError m h)"
proof (rule appendsI)
  fix w
  obtain r w1 where m: "m w = (r, w1)" by fastforce
  from appendsD [OF assms(1), of w] m obtain t where t: "trace w1 = trace w @ t" by auto
  show "\<exists>t. trace (snd (except_PopenError m h w)) = trace w @ t"
  proof (cases "\<exists>k cmd. r = Exc (PopenError k cmd)")
    case True
    then obtain k cmd where x: "r = Exc (PopenError k cmd)" by blast
    from appendsD [OF assms(2), of "PopenError k cmd" w1]
    obtain u where "trace (snd (h (PopenError k cmd) w1)) = trace w1 @ u" by auto
    with x m t show ?thesis by (simp add: except_PopenError_def)
  next
    case False
    with m t show ?thesis
      by (cases r) (auto simp add: except_PopenError_def split: error.splits)
  qed
qed

lemma appends_prims [intro!]:
  "appends (logger l f a)" "appends (io_exists p)" "appends (io_get_files d pat)"
  "appends (shell e cwd cmd)" "appends (makedirs p)" "appends (mkdtemp e root)"
  "appends (rmtree_io p)" "appends (get_random_str e)" "appends (write_file p c)"
  "appends (copy1 src dest)" "appends (move1 src dest)" "appends (getitem d' k)"
  "appends (join_val dir v)"
  by (auto simp: appends_def logger_def io_exists_def io_get_files_def shell_def makedirs_def
      mkdtemp_def rmtree_io_def get_random_str_def write_file_def copy1_def move1_def getitem_def
      join_val_def io_ret_def io_raise_def Let_def
      split: prod.splits option.splits node.splits pyval.splits)

lemma appends_copy [intro!]: "appends (copy fs' dest)"
  by (induction fs') auto

lemma appends_move [intro!]: "appends (move fs' dest)"
  by (induction fs') auto

lemma appends_io_map [intro!]: "(\<And>x. appends (f x)) \<Longrightarrow> appends (io_map f xs)"
  by (induction xs) auto

lemma appends_temp [intro!]: "(\<And>d. appends (body d)) \<Longrightarrow> appends (make_temp_dir e body)"
  by (auto simp: make_temp_dir_def)

lemma appends_build [intro!]: "appends (build_mothur_script e t out cfg)"
proof -
  have "appends (\<lambda>w. case render_template e t cfg of
                     Some text \<Rightarrow> (Ret text, w\<lparr>trace := trace w @ [Render t cfg]\<rparr>)
                   | None \<Rightarrow> (Exc (TemplateError t), w\<lparr>trace := trace w @ [Render t cfg]\<rparr>))"
    by (auto simp: appends_def split: option.splits)
  then show ?thesis
    unfolding build_mothur_script_def by (intro appends_seq appends_bind appends_prims)
qed

subsection \<open>Fetch\<close>

text \<open>
  Claim C6. For a sample whose prefetched archive \<^verbatim>\<open><data_dir>/<sra>/<sra>.sra\<close> exists and
  whose directory already holds at least one \<^verbatim>\<open>*.fastq\<close> file when \<^verbatim>\<open>get_fastq\<close> starts,
  the call runs no external process at all: the commands executed after the call are
  those executed before it, so neither \<^verbatim>\<open>prefetch\<close> nor \<^verbatim>\<open>vdb-validate\<close> nor
  \<^verbatim>\<open>fasterq-dump\<close> is invoked.
\<close>

theorem get_fastq_raw_present_no_exec:
  assumes "map_of (rev meta) ''sra'' = Some (PStr sra)"
    and "osp_exists (fs w) (osp_join (osp_join (data_dir_or_default e dd) sra) (sra @ ''.sra''))"
    and "get_files (fs w) (osp_join (data_dir_or_default e dd) sra) ''*.fastq'' \<noteq> []"
  shows "execs (snd (get_fastq e kw meta dd w)) = execs w"
proof -
  let ?d = "data_dir_or_default e dd"
  let ?s1 = "makedirs_store ?d (fs w)"
  have ex: "extends (fs w) ?s1" by (rule extends_makedirs)
  have a: "osp_exists ?s1 (osp_join (osp_join ?d sra) (sra @ ''.sra''))"
    using osp_exists_extends [OF ex assms(2)] .
  have b: "get_files ?s1 (osp_join ?d sra) ''*.fastq'' \<noteq> []"
    using get_files_extends [OF ex, of "osp_join ?d sra" "''*.fastq''"] assms(3) by auto
  show ?thesis
    using a b assms(1)
    by (cases "map_of (rev meta) ''layout''")
       (simp_all add: get_fastq_def get_data_dir_eq io_defs Let_def execs_def)
qed

lemmas path_eval = osp_join_def osp_dirname_def osp_basename_def path_head_def rstrip_slash_def

lemmas store_eval = get_files_def walked.simps isdir_def osp_exists_def lookup_def
  glob_name_def ishidden_def

lemma get_files_store0: "get_files store0 ''/data/SRR1'' ''*.fastq'' = [''/data/SRR1/SRR1.fastq'']"
  by (simp add: store0_def store_eval path_eval)

theorem get_fastq_raw_present_no_exec_witness:
  "execs (snd (get_fastq env0 None meta0 (Some ''/data'') w0)) = []"
proof -
  have h1: "map_of (rev meta0) ''sra'' = Some (PStr ''SRR1'')"
    by (simp add: meta0_def)
  have d: "data_dir_or_default env0 (Some ''/data'') = ''/data''"
    by (simp add: data_dir_or_default_def)
  have j: "osp_join ''/data'' ''SRR1'' = ''/data/SRR1''"
    by (simp add: osp_join_def)
  have h2: "osp_exists (fs w0)
      (osp_join (osp_join (data_dir_or_default env0 (Some ''/data'')) ''SRR1'') (''SRR1'' @ ''.sra''))"
    by (simp add: d j w0_def store0_def osp_join_def osp_exists_def lookup_def)
  have h3: "get_files (fs w0) (osp_join (data_dir_or_default env0 (Some ''/data'')) ''SRR1'')
      ''*.fastq'' \<noteq> []"
    unfolding d j by (simp add: w0_def get_files_store0)
  from get_fastq_raw_present_no_exec [OF h1 h2 h3, of None]
  show ?thesis by (simp add: execs_def w0_def)
qed

lemmas get_fastq_unfold = get_fastq_def get_data_dir_eq io_defs Let_def new_events_def shell_def

text \<open>
  Claim C9. When the archive \<^verbatim>\<open><data_dir>/<sra>/<sra>.sra\<close> exists at the start of
  \<^verbatim>\<open>get_fastq\<close>, the only external command the call can run is \<^verbatim>\<open>fasterq-dump\<close>, and it
  runs exactly when no \<^verbatim>\<open>*.fastq\<close> file is listed: a cached archive goes straight to
  extraction and is never validated. In any call, \<^verbatim>\<open>vdb-validate\<close> appears among the new
  events only if the archive was absent and the \<^verbatim>\<open>prefetch\<close> of this same call ended with
  status 0.
\<close>

theorem get_fastq_cached_archive_skips_validate:
  assumes sra: "map_of (rev meta) ''sra'' = Some (PStr sra)"
    and lay: "map_of (rev meta) ''layout'' = Some lay"
  shows "(osp_exists (fs w) (osp_join (osp_join (data_dir_or_default e dd) sra) (sra @ ''.sra'')) \<longrightarrow>
           filter is_exec (new_events w (snd (get_fastq e kw meta dd w))) =
             (if get_files (makedirs_store (data_dir_or_default e dd) (fs w))
                   (osp_join (data_dir_or_default e dd) sra) ''*.fastq'' = []
              then [Exec (''fasterq-dump --threads '' @ py_str (kwargs_get_jobs e kw) @ '' '' @
                            (if lay = PStr ''paired'' then ''--split-files'' else []) @ '' '' @ sra)
                         (osp_join (data_dir_or_default e dd) sra)]
              else []))
       \<and> (Exec (''vdb-validate '' @ osp_join (data_dir_or_default e dd) sra) (data_dir_or_default e dd)
             \<in> set (new_events w (snd (get_fastq e kw meta dd w))) \<longrightarrow>
           \<not> osp_exists (fs w) (osp_join (osp_join (data_dir_or_default e dd) sra) (sra @ ''.sra'')) \<and>
           fst (run_process e (''prefetch -O '' @ osp_join (data_dir_or_default e dd) sra @ '' '' @ sra)
                  (data_dir_or_default e dd) (makedirs_store (data_dir_or_default e dd) (fs w))) = 0)"
proof -
  let ?d = "data_dir_or_default e dd"
  let ?s1 = "makedirs_store ?d (fs w)"
  let ?sd = "osp_join ?d sra"
  let ?p = "osp_join ?sd (sra @ ''.sra'')"
  let ?dump = "''fasterq-dump --threads '' @ py_str (kwargs_get_jobs e kw) @ '' '' @
                 (if lay = PStr ''paired'' then ''--split-files'' else []) @ '' '' @ sra"
  let ?pre = "''prefetch -O '' @ ?sd @ '' '' @ sra"
  let ?new = "new_events w (snd (get_fastq e kw meta dd w))"
  have keep: "osp_exists (fs w) ?p \<Longrightarrow> osp_exists ?s1 ?p"
    using osp_exists_extends [OF extends_makedirs] .
  have cached: "filter is_exec ?new =
      (if get_files ?s1 ?sd ''*.fastq'' = [] then [Exec ?dump ?sd] else [])
      \<and> Exec (''vdb-validate '' @ ?sd) ?d \<notin> set ?new"
    if ex: "osp_exists ?s1 ?p"
    using sra lay ex by (simp add: get_fastq_unfold)
  have failed: "Exec (''vdb-validate '' @ ?sd) ?d \<notin> set ?new"
    if nex: "\<not> osp_exists ?s1 ?p" and ns: "fst (run_process e ?pre ?d ?s1) \<noteq> 0"
    using sra lay nex ns by (simp add: get_fastq_unfold)
  from keep cached failed show ?thesis by blast
qed

lemmas sample_eval = env0_def meta0_def data_dir_or_default_def kwargs_get_jobs_def DEFAULT_def
  dec_nat.simps digit_char_def makedirs_store.simps

theorem get_fastq_cached_archive_skips_validate_witness:
  "filter is_exec (new_events w1 (snd (get_fastq env0 None meta0 (Some ''/data'') w1))) =
     [Exec ''fasterq-dump --threads 4  SRR1'' ''/data/SRR1'']
   \<and> \<not> osp_exists (fs w2) ''/data/SRR1/SRR1.sra''
   \<and> fst (run_process env0 ''prefetch -O /data/SRR1 SRR1'' ''/data'' (fs w2)) = 0"
proof -
  have h1: "map_of (rev meta0) ''sra'' = Some (PStr ''SRR1'')"
    and h2: "map_of (rev meta0) ''layout'' = Some (PStr ''single'')"
    by (simp_all add: meta0_def)
  have m1: "makedirs_store ''/data'' store1 = store1"
    by (simp add: makedirs_store.simps store1_def osp_exists_def lookup_def)
  have g1: "get_files store1 ''/data/SRR1'' ''*.fastq'' = []"
    by (simp add: store1_def store_eval path_eval)
  have ex1: "osp_exists store1 ''/data/SRR1/SRR1.sra''"
    by (simp add: store1_def osp_exists_def lookup_def)
  have v2: "Exec ''vdb-validate /data/SRR1'' ''/data''
      \<in> set (new_events w2 (snd (get_fastq env0 None meta0 (Some ''/data'') w2)))"
    by (simp add: get_fastq_unfold w2_def sample_eval osp_exists_def lookup_def osp_join_def isdir_def)
  have m2: "makedirs_store ''/data'' (fs w2) = fs w2"
    by (simp add: makedirs_store.simps w2_def osp_exists_def lookup_def)
  from get_fastq_cached_archive_skips_validate [OF h1 h2, of w1 env0 "Some ''/data''" None]
  have a: "filter is_exec (new_events w1 (snd (get_fastq env0 None meta0 (Some ''/data'') w1))) =
     [Exec ''fasterq-dump --threads 4  SRR1'' ''/data/SRR1'']"
    using ex1 by (simp add: w1_def m1 g1 data_dir_or_default_def osp_join_def kwargs_get_jobs_def
         env0_def DEFAULT_def dec_nat.simps digit_char_def)
  from get_fastq_cached_archive_skips_validate [OF h1 h2, of w2 env0 "Some ''/data''" None] v2
  have b: "\<not> osp_exists (fs w2) ''/data/SRR1/SRR1.sra'' \<and>
        fst (run_process env0 ''prefetch -O /data/SRR1 SRR1'' ''/data'' (fs w2)) = 0"
    by (simp add: data_dir_or_default_def osp_join_def m2)
  from a b show ?thesis by simp
qed

subsection \<open>Stepping through a sequence\<close>

lemma seq_step: "m w = (Ret x, w') \<Longrightarrow> io_seq m n w = n w'"
  by (simp add: io_seq_def io_bind_def)

lemma bind_step: "m w = (Ret x, w') \<Longrightarrow> io_bind m f w = f x w'"
  by (simp add: io_bind_def)

lemma seq_raise: "m w = (Exc err, w') \<Longrightarrow> io_seq m n w = (Exc err, w')"
  by (simp add: io_seq_def io_bind_def)

lemma bind_raise: "m w = (Exc err, w') \<Longrightarrow> io_bind m f w = (Exc err, w')"
  by (simp add: io_bind_def)

lemma world_eqI: "fs w = fs w' \<Longrightarrow> trace w = trace w' \<Longrightarrow> fresh w = fresh w' \<Longrightarrow> w = w'"
  for w w' :: world
  by simp

subsection \<open>Paths and files\<close>

lemma basename_no_slash: "CHR ''/'' \<notin> set (osp_basename p)"
  by (auto simp: osp_basename_def dest: set_takeWhileD)

lemma join_plain_ne: "b \<noteq> [] \<Longrightarrow> CHR ''/'' \<notin> set b \<Longrightarrow> osp_join a b \<noteq> a"
  by (cases b) (auto simp: osp_join_def)

lemma isfile_put: "isfile (put p n s) q = (if q = p then n \<noteq> Dir else isfile s q)"
  by (cases n) (simp_all add: isfile_def lookup_put)

lemma isdir_put: "isdir (put p n s) q = (if q = p then n = Dir else isdir s q)"
  by (simp add: isdir_def lookup_put)

lemma isfile_extends: "extends s s' \<Longrightarrow> isfile s p \<Longrightarrow> isfile s' p"
  by (auto simp: extends_def isfile_def split: option.splits node.splits)

lemma isdir_extends: "extends s s' \<Longrightarrow> isdir s p \<Longrightarrow> isdir s' p"
  by (auto simp: extends_def isdir_def)

lemma extends_refl: "extends s s"
  by (simp add: extends_def)

lemma extends_trans: "extends s s' \<Longrightarrow> extends s' s'' \<Longrightarrow> extends s s''"
  by (auto simp: extends_def)

lemma extends_put_new: "\<not> osp_exists s p \<Longrightarrow> extends s (put p n s)"
  by (auto simp: extends_def osp_exists_def lookup_put)

text \<open>
  Copying regular files: every copy succeeds and is recorded; regular files stay regular,
  and a destination directory stays one when no source has an empty base name.
\<close>

lemma copy1_file:
  assumes "isfile (fs w) src"
  shows "\<exists>w'. copy1 src dest w = (Ret (), w') \<and> trace w' = trace w @ [Copy src dest] \<and>
           fresh w' = fresh w \<and> (\<forall>p. isfile (fs w) p \<longrightarrow> isfile (fs w') p) \<and>
           (isdir (fs w) dest \<and> osp_basename src \<noteq> [] \<longrightarrow> isdir (fs w') dest)"
proof -
  from assms(1) obtain x where x: "lookup (fs w) src = Some (File x)"
    by (auto simp: isfile_def split: option.splits node.splits)
  show ?thesis
  proof (cases "isdir (fs w) dest \<and> osp_basename src \<noteq> []")
    case True
    then have "osp_join dest (osp_basename src) \<noteq> dest"
      by (intro join_plain_ne) (simp_all add: basename_no_slash)
    with x True show ?thesis
      by (simp add: copy1_def isdir_put isfile_put)
  next
    case False
    with x show ?thesis
      by (auto simp add: copy1_def isfile_put)
  qed
qed

lemma copy_files:
  "\<forall>f \<in> set fl. isfile (fs w) f \<Longrightarrow>
   \<exists>w'. copy fl dest w = (Ret (), w') \<and> trace w' = trace w @ map (\<lambda>f. Copy f dest) fl \<and>
           fresh w' = fresh w \<and> (\<forall>p. isfile (fs w) p \<longrightarrow> isfile (fs w') p) \<and>
           (isdir (fs w) dest \<and> (\<forall>f \<in> set fl. osp_basename f \<noteq> []) \<longrightarrow> isdir (fs w') dest)"
proof (induction fl arbitrary: w)
  case Nil
  then show ?case by (simp add: io_ret_def)
next
  case (Cons f fl)
  from Cons.prems have "isfile (fs w) f" by simp
  from copy1_file [OF this, of dest] obtain w1 where
    w1: "copy1 f dest w = (Ret (), w1)" "trace w1 = trace w @ [Copy f dest]" "fresh w1 = fresh w"
      "\<forall>p. isfile (fs w) p \<longrightarrow> isfile (fs w1) p"
      "isdir (fs w) dest \<and> osp_basename f \<noteq> [] \<longrightarrow> isdir (fs w1) dest" by blast
  with Cons.prems have "\<forall>f \<in> set fl. isfile (fs w1) f" by simp
  from Cons.IH [OF this] obtain w2 where
    w2: "copy fl dest w1 = (Ret (), w2)" "trace w2 = trace w1 @ map (\<lambda>f. Copy f dest) fl"
      "fresh w2 = fresh w1" "\<forall>p. isfile (fs w1) p \<longrightarrow> isfile (fs w2) p"
      "isdir (fs w1) dest \<and> (\<forall>f \<in> set fl. osp_basename f \<noteq> []) \<longrightarrow> isdir (fs w2) dest"
    by blast
  from w1 w2 show ?case by (simp add: seq_step)
qed

text \<open>Copying one regular file succeeds wherever it goes, and keeps regular files regular.\<close>

lemma copy_single:
  assumes "isfile (fs w) src"
  shows "\<exists>w'. copy [src] dest w = (Ret (), w') \<and> trace w' = trace w @ [Copy src dest] \<and>
           fresh w' = fresh w \<and> (\<forall>p. isfile (fs w) p \<longrightarrow> isfile (fs w') p)"
proof -
  from assms(1) obtain x where x: "lookup (fs w) src = Some (File x)"
    by (auto simp: isfile_def split: option.splits node.splits)
  then show ?thesis
    by (simp add: copy1_def io_seq_def io_bind_def io_ret_def isfile_put)
qed

subsection \<open>The blocks of the Filter stage\<close>

lemma bind_ret: "io_bind (io_ret v) f = f v"
  by (rule ext) (simp add: io_bind_def io_ret_def)

lemma target_values:
  "itervalues (target_path tdir) =
     [osp_join tdir ''filtered.fasta'', osp_join tdir ''filtered.group'', osp_join tdir ''filtered.summary'']"
  by (simp add: itervalues_def target_path_def target_types_def dict_from_list_def)

lemma target_items:
  "getitem (target_path tdir) ''fasta'' = io_ret (osp_join tdir ''filtered.fasta'')"
  "getitem (target_path tdir) ''group'' = io_ret (osp_join tdir ''filtered.group'')"
  "getitem (target_path tdir) ''summary'' = io_ret (osp_join tdir ''filtered.summary'')"
  by (simp_all add: getitem_def target_path_def target_types_def dict_from_list_def)

lemma gate_present:
  "io_map io_exists (itervalues (target_path tdir)) w =
     (Ret [osp_exists (fs w) (osp_join tdir ''filtered.fasta''),
           osp_exists (fs w) (osp_join tdir ''filtered.group''),
           osp_exists (fs w) (osp_join tdir ''filtered.summary'')], w)"
  by (simp add: target_values io_defs)


text \<open>The tool ends with status 0 and its three outputs are there: they are copied out.\<close>

lemma run_mothur_filter_succeeds:
  assumes dir: "isdir (fs w) tmp_dir"
    and ok: "fst (run_process e (''mothur '' @ mf) tmp_dir (fs w)) = 0"
    and out: "\<forall>i < 3. isfile (snd (run_process e (''mothur '' @ mf) tmp_dir (fs w)))
                (osp_join tmp_dir (prefix @ choice (layout c) ! i))"
  shows "\<exists>w'. run_mothur_filter e c tmp_dir prefix mf (target_path (target_dir c)) w = (Ret (), w') \<and>
     trace w' = trace w @
       [Exec (''mothur '' @ mf) tmp_dir,
        Log SUCCESS ''[SRA %s] mothur ran successfully.'' [AVal (sra_id c)],
        Log INFO ''[SRA %s] Attempting to copy filtered files.'' [AVal (sra_id c)],
        Copy (osp_join tmp_dir (prefix @ choice (layout c) ! 0)) (osp_join (target_dir c) ''filtered.fasta''),
        Copy (osp_join tmp_dir (prefix @ choice (layout c) ! 1)) (osp_join (target_dir c) ''filtered.group''),
        Copy (osp_join tmp_dir (prefix @ choice (layout c) ! 2)) (osp_join (target_dir c) ''filtered.summary''),
        Log INFO ''[SRA %s] Successfully copied filtered files at %s.''
          [AVal (sra_id c), AStr (target_dir c)]]"
proof -
  let ?cmd = "''mothur '' @ mf"
  let ?s' = "snd (run_process e ?cmd tmp_dir (fs w))"
  let ?o = "\<lambda>i. osp_join tmp_dir (prefix @ choice (layout c) ! i)"
  let ?t = "\<lambda>x. osp_join (target_dir c) x"
  define wa where "wa = w\<lparr>fs := ?s', trace := trace w @ [Exec ?cmd tmp_dir]\<rparr>"
  define wb where "wb = wa\<lparr>trace := trace wa @
      [Log SUCCESS ''[SRA %s] mothur ran successfully.'' [AVal (sra_id c)]]\<rparr>"
  define wc where "wc = wb\<lparr>trace := trace wb @
      [Log INFO ''[SRA %s] Attempting to copy filtered files.'' [AVal (sra_id c)]]\<rparr>"
  define wd where "wd = wc\<lparr>fs := makedirs_store (target_dir c) (fs wc)\<rparr>"
  have sh: "shell e tmp_dir ?cmd w = (Ret 0, wa)"
    using dir ok by (simp add: shell_def wa_def)
  have l1: "logger SUCCESS ''[SRA %s] mothur ran successfully.'' [AVal (sra_id c)] wa = (Ret (), wb)"
    by (simp add: logger_def wb_def)
  have l2: "logger INFO ''[SRA %s] Attempting to copy filtered files.'' [AVal (sra_id c)] wb = (Ret (), wc)"
    by (simp add: logger_def wc_def)
  have mk: "makedirs (target_dir c) wc = (Ret (), wd)"
    by (simp add: makedirs_def wd_def)
  have fsd: "fs wd = makedirs_store (target_dir c) ?s'"
    by (simp add: wd_def wc_def wb_def wa_def)
  have trd: "trace wd = trace w @ [Exec ?cmd tmp_dir,
        Log SUCCESS ''[SRA %s] mothur ran successfully.'' [AVal (sra_id c)],
        Log INFO ''[SRA %s] Attempting to copy filtered files.'' [AVal (sra_id c)]]"
    by (simp add: wd_def wc_def wb_def wa_def)
  have files3: "isfile (fs wd) (?o 0)" "isfile (fs wd) (?o 1)" "isfile (fs wd) (?o 2)"
    unfolding fsd using out isfile_extends [OF extends_makedirs] by simp_all
  from copy_single [OF files3(1), of "?t ''filtered.fasta''"] obtain w4 where
    w4: "copy [?o 0] (?t ''filtered.fasta'') wd = (Ret (), w4)"
      "trace w4 = trace wd @ [Copy (?o 0) (?t ''filtered.fasta'')]"
      "\<forall>p. isfile (fs wd) p \<longrightarrow> isfile (fs w4) p" by auto
  from w4(3) files3 have f4: "isfile (fs w4) (?o 1)" "isfile (fs w4) (?o 2)" by blast+
  from copy_single [OF f4(1), of "?t ''filtered.group''"] obtain w5 where
    w5: "copy [?o 1] (?t ''filtered.group'') w4 = (Ret (), w5)"
      "trace w5 = trace w4 @ [Copy (?o 1) (?t ''filtered.group'')]"
      "\<forall>p. isfile (fs w4) p \<longrightarrow> isfile (fs w5) p" by auto
  from w5(3) f4 have f5: "isfile (fs w5) (?o 2)" by blast
  from copy_single [OF f5, of "?t ''filtered.summary''"] obtain w6 where
    w6: "copy [?o 2] (?t ''filtered.summary'') w5 = (Ret (), w6)"
      "trace w6 = trace w5 @ [Copy (?o 2) (?t ''filtered.summary'')]" by auto
  have cf: "copy_filtered c tmp_dir prefix (target_path (target_dir c)) wa =
      logger INFO ''[SRA %s] Successfully copied filtered files at %s.''
          [AVal (sra_id c), AStr (target_dir c)] w6"
    unfolding copy_filtered_def target_items
    using w4(1) w5(1) w6(1)
    by (simp add: io_seq_def io_bind_def io_ret_def l1 l2 mk del: copy.simps)
  have "run_mothur_filter e c tmp_dir prefix mf (target_path (target_dir c)) w =
      logger INFO ''[SRA %s] Successfully copied filtered files at %s.''
          [AVal (sra_id c), AStr (target_dir c)] w6"
    unfolding run_mothur_filter_def
    using sh cf
    by (simp add: except_PopenError_def io_bind_def logger_def)
  with w4(2) w5(2) w6(2) trd show ?thesis
    by (simp add: logger_def)
qed

lemma extends_write: "extends s s' \<Longrightarrow> extends s (if osp_exists s' p then s' else put p n s')"
  using extends_put_new [of s' p n] extends_trans by auto

lemma write_file_step:
  "\<exists>w'. write_file p x w = (Ret (), w') \<and> trace w' = trace w @ [Write p x] \<and>
         fresh w' = fresh w \<and> extends (fs w) (fs w')"
  by (simp add: write_file_def extends_refl extends_put_new)

text \<open>
  The control files and the script: when the template renders, the block returns, and
  what it wrote is on the trace.
\<close>

lemma prepare_mothur_filter_runs:
  assumes "render_template e ''mothur/filter''
             [(''inputdir'', AStr tmp_dir), (''prefix'', AStr prefix), (''processors'', AVal jobs),
              (''qaverage'', AVal (settings e ''quality_average'')),
              (''maxambig'', AVal (settings e ''maximum_ambiguity'')),
              (''maxhomop'', AVal (settings e ''maximum_homopolymers''))] = Some rendered"
  shows "\<exists>w'. prepare_mothur_filter e jobs c config tmp_dir prefix w = (Ret (), w') \<and>
     trace w' = trace w @
       [Log INFO ''[SRA %s] Using prefix for mothur: %s'' [AVal (sra_id c), AStr prefix],
        Log INFO ''[SRA %s] Setting up directory %s for preprocessing'' [AVal (sra_id c), AStr tmp_dir]] @
       (if layout c = PStr ''single''
        then [Write (osp_join tmp_dir (prefix @ ''.file''))
                (str_join [CHR 0x0A] (map get_fastq_file_line (files c)))]
        else []) @
       (if layout c = PStr ''paired'' \<and> trim_type c = PStr ''false''
        then [Write (osp_join tmp_dir ''primers.oligos'')
                (''primer '' @ py_str (primer_f c) @ '' '' @ py_str (primer_r c))]
        else []) @
       [Log INFO ''Building script %s for mothur.'' [AStr ''mothur/filter''],
        Render ''mothur/filter''
          [(''inputdir'', AStr tmp_dir), (''prefix'', AStr prefix), (''processors'', AVal jobs),
           (''qaverage'', AVal (settings e ''quality_average'')),
           (''maxambig'', AVal (settings e ''maximum_ambiguity'')),
           (''maxhomop'', AVal (settings e ''maximum_homopolymers''))],
        Write (osp_join tmp_dir ''script'') rendered,
        Log INFO ''[SRA %s] Running mothur...'' [AVal (sra_id c)]] \<and>
     fresh w' = fresh w \<and> extends (fs w) (fs w')"
proof -
  let ?cfg = "[(''inputdir'', AStr tmp_dir), (''prefix'', AStr prefix), (''processors'', AVal jobs),
              (''qaverage'', AVal (settings e ''quality_average'')),
              (''maxambig'', AVal (settings e ''maximum_ambiguity'')),
              (''maxhomop'', AVal (settings e ''maximum_homopolymers''))]"
  let ?single = "layout c = PStr ''single''"
  let ?paired = "layout c = PStr ''paired'' \<and> trim_type c = PStr ''false''"
  let ?file = "osp_join tmp_dir (prefix @ ''.file'')"
  let ?data = "str_join [CHR 0x0A] (map get_fastq_file_line (files c))"
  let ?oligos = "osp_join tmp_dir ''primers.oligos''"
  let ?odata = "''primer '' @ py_str (primer_f c) @ '' '' @ py_str (primer_r c)"
  let ?l1 = "Log INFO ''[SRA %s] Using prefix for mothur: %s'' [AVal (sra_id c), AStr prefix]"
  let ?l2 = "Log INFO ''[SRA %s] Setting up directory %s for preprocessing'' [AVal (sra_id c), AStr tmp_dir]"
  define wl where "wl = w\<lparr>trace := trace w @ [?l1, ?l2]\<rparr>"
  let ?m1 = "if ?single then
          io_seq (write_file ?file ?data)
                (io_ret (setitem (setitem config ''fastq_file'' (AStr ?file))
                           ''group'' (AStr (osp_join tmp_dir (prefix @ ''.group'')))))
        else io_ret config"
  obtain cfg1 w1 where w1: "?m1 wl = (Ret cfg1, w1)"
    "trace w1 = trace wl @ (if ?single then [Write ?file ?data] else [])"
    "fresh w1 = fresh wl" "extends (fs wl) (fs w1)"
  proof (cases ?single)
    case True
    from write_file_step [of ?file ?data wl] obtain w' where
      "write_file ?file ?data wl = (Ret (), w')" "trace w' = trace wl @ [Write ?file ?data]"
      "fresh w' = fresh wl" "extends (fs wl) (fs w')" by blast
    with True that show ?thesis by (simp add: io_seq_def io_bind_def io_ret_def)
  next
    case False
    show ?thesis
      by (rule that [where ?cfg1.0 = config and ?w1.0 = wl])
         (simp_all add: False io_ret_def extends_refl)
  qed
  let ?m2 = "\<lambda>config. if ?paired then
          io_seq (write_file ?oligos ?odata) (io_ret (setitem config ''oligos'' (AStr ?oligos)))
        else io_ret config"
  obtain cfg2 w2 where w2: "?m2 cfg1 w1 = (Ret cfg2, w2)"
    "trace w2 = trace w1 @ (if ?paired then [Write ?oligos ?odata] else [])"
    "fresh w2 = fresh w1" "extends (fs w1) (fs w2)"
  proof (cases ?paired)
    case True
    from write_file_step [of ?oligos ?odata w1] obtain w' where
      "write_file ?oligos ?odata w1 = (Ret (), w')" "trace w' = trace w1 @ [Write ?oligos ?odata]"
      "fresh w' = fresh w1" "extends (fs w1) (fs w')" by blast
    with True that show ?thesis by (simp add: io_seq_def io_bind_def io_ret_def)
  next
    case False
    show ?thesis
      by (rule that [where ?cfg2.0 = cfg1 and ?w2.0 = w1])
         (simp_all add: False io_ret_def extends_refl)
  qed
  define w3 where "w3 = w2\<lparr>trace := trace w2 @
      [Log INFO ''Building script %s for mothur.'' [AStr ''mothur/filter''],
       Render ''mothur/filter'' ?cfg]\<rparr>"
  from write_file_step [of "osp_join tmp_dir ''script''" rendered w3] obtain w4 where
    w4: "write_file (osp_join tmp_dir ''script'') rendered w3 = (Ret (), w4)"
    "trace w4 = trace w3 @ [Write (osp_join tmp_dir ''script'') rendered]"
    "fresh w4 = fresh w3" "extends (fs w3) (fs w4)" by blast
  have build: "build_mothur_script e ''mothur/filter'' (osp_join tmp_dir ''script'') ?cfg w2 = (Ret (), w4)"
    using assms w4(1) by (simp add: build_mothur_script_def io_seq_def io_bind_def logger_def w3_def)
  have "prepare_mothur_filter e jobs c config tmp_dir prefix w =
      logger INFO ''[SRA %s] Running mothur...'' [AVal (sra_id c)] w4"
    unfolding prepare_mothur_filter_def Let_def
    using w1(1) w2(1) build
    by (simp add: io_seq_def io_bind_def logger_def wl_def del: if_split cong: if_cong)
  moreover have "extends (fs w) (fs w4)"
    using w1(4) w2(4) w4(4) extends_trans by (simp add: wl_def w3_def)
  ultimately show ?thesis
    using w1(2,3) w2(2,3) w4(2,3) by (simp add: logger_def wl_def w3_def)
qed

lemma appends_copy_filtered [intro!]: "appends (copy_filtered c tmp_dir prefix tpath)"
  unfolding copy_filtered_def
  by (intro appends_seq appends_bind appends_prims appends_copy)

lemma appends_prepare [intro!]: "appends (prepare_mothur_filter e jobs c config tmp_dir prefix)"
  unfolding prepare_mothur_filter_def Let_def
  by (intro appends_seq appends_bind appends_if appends_prims appends_build appends_ret)

lemma appends_run [intro!]: "appends (run_mothur_filter e c tmp_dir prefix mf tpath)"
  unfolding run_mothur_filter_def
  by (intro appends_except appends_bind appends_if appends_prims appends_copy_filtered appends_ret)

lemma finally_rmtree:
  "io_finally m (rmtree_io d) w = (fst (m w), (snd (m w))\<lparr>fs := rmtree d (fs (snd (m w)))\<rparr>)"
  by (simp add: io_finally_def rmtree_io_def split: prod.splits)

text \<open>Whatever the tool does, the \<^verbatim>\<open>try\<close> block first hands its command to the runner.\<close>

lemma run_mothur_filter_starts:
  "\<exists>t. trace (snd (run_mothur_filter e c tmp_dir prefix mf tpath w)) =
         trace w @ Exec (''mothur '' @ mf) tmp_dir # t"
proof -
  let ?cmd = "''mothur '' @ mf"
  define wa where "wa = snd (shell e tmp_dir ?cmd w)"
  have tra: "trace wa = trace w @ [Exec ?cmd tmp_dir]"
    by (simp add: wa_def shell_def)
  show ?thesis
  proof (cases "fst (shell e tmp_dir ?cmd w)")
    case (Ret k)
    then have sh: "shell e tmp_dir ?cmd w = (Ret k, wa)"
      by (simp add: wa_def prod_eq_iff)
    let ?m = "if k = 0 then copy_filtered c tmp_dir prefix tpath else io_ret ()"
    have "appends ?m" by (intro appends_if appends_copy_filtered appends_ret)
    from appendsD [OF this, of wa] obtain t where t: "trace (snd (?m wa)) = trace wa @ t" by blast
    have "run_mothur_filter e c tmp_dir prefix mf tpath w = ?m wa \<or>
          (\<exists>k' cmd'. fst (?m wa) = Exc (PopenError k' cmd') \<and>
             run_mothur_filter e c tmp_dir prefix mf tpath w =
               logger ERROR ''[SRA %s] Unable to filter files. Error: %s''
                 [AVal (sra_id c), AErr (PopenError k' cmd')] (snd (?m wa)))"
      unfolding run_mothur_filter_def using sh
      by (cases "?m wa"; cases "fst (?m wa)")
         (auto simp add: except_PopenError_def io_bind_def split: error.splits res.splits)
    with t tra show ?thesis by (auto simp add: logger_def)
  next
    case (Exc err)
    then have sh: "shell e tmp_dir ?cmd w = (Exc err, wa)"
      by (simp add: wa_def prod_eq_iff)
    then have "run_mothur_filter e c tmp_dir prefix mf tpath w = (Exc err, wa) \<or>
        run_mothur_filter e c tmp_dir prefix mf tpath w =
               logger ERROR ''[SRA %s] Unable to filter files. Error: %s''
                 [AVal (sra_id c), AErr err] wa"
      unfolding run_mothur_filter_def
      by (cases err) (auto simp add: except_PopenError_def io_bind_def)
    with tra show ?thesis by (auto simp add: logger_def)
  qed
qed

text \<open>The stage is not skipped and the cache directory is there: the workspace is entered.\<close>

lemma filter_enters_workspace:
  assumes "\<not> (osp_exists (makedirs_store (data_dir_or_default e dd) (fs w)) (osp_join (target_dir c) ''filtered.fasta'') \<and>
       osp_exists (makedirs_store (data_dir_or_default e dd) (fs w)) (osp_join (target_dir c) ''filtered.group'') \<and>
       osp_exists (makedirs_store (data_dir_or_default e dd) (fs w)) (osp_join (target_dir c) ''filtered.summary''))"
    and "isdir (makedirs_store (data_dir_or_default e dd) (fs w)) (path_cache e)"
  shows "mothur_filter_files e kw c dd w =
      io_finally
        (filter_in_workspace e (kwargs_get_jobs e kw) c (popped c) (target_path (target_dir c))
           (osp_join (path_cache e) (temp_name e (fresh w))))
        (rmtree_io (osp_join (path_cache e) (temp_name e (fresh w))))
        (w\<lparr>fs := put (osp_join (path_cache e) (temp_name e (fresh w))) Dir
                   (makedirs_store (data_dir_or_default e dd) (fs w)),
           trace := trace w @ [Log INFO ''Using config %s to filter files.'' (config_args c),
                               MkTemp (osp_join (path_cache e) (temp_name e (fresh w)))],
           fresh := Suc (fresh w)\<rparr>)"
  using assms
  by (auto simp add: mothur_filter_files_def get_data_dir_eq gate_present Let_def
        io_seq_def io_bind_def logger_def make_temp_dir_def mkdtemp_def)

text \<open>
  From the workspace to the tool: the raw files are copied in, the control files and the
  script are written, and the \<^verbatim>\<open>try\<close> block starts in a world whose trace lists all that.
\<close>

lemma filter_in_workspace_reaches_tool:
  assumes dir: "isdir (fs w) tmp_dir"
    and raw: "\<forall>f \<in> set (files c). isfile (fs w) f \<and> osp_basename f \<noteq> []"
    and tpl: "render_template e ''mothur/filter''
             [(''inputdir'', AStr tmp_dir), (''prefix'', AStr (random_str e (fresh w))),
              (''processors'', AVal jobs),
              (''qaverage'', AVal (settings e ''quality_average'')),
              (''maxambig'', AVal (settings e ''maximum_ambiguity'')),
              (''maxhomop'', AVal (settings e ''maximum_homopolymers''))] = Some rendered"
  shows "\<exists>w'. filter_in_workspace e jobs c config tpath tmp_dir w =
            run_mothur_filter e c tmp_dir (random_str e (fresh w)) (osp_join tmp_dir ''script'') tpath w' \<and>
     trace w' = trace w @
       [Log INFO ''[SRA %s] Copying FASTQ files %s for pre-processing at %s.''
          [AVal (sra_id c), AStrs (files c), AStr tmp_dir]] @
       map (\<lambda>f. Copy f tmp_dir) (files c) @
       [Log INFO ''[SRA %s] Using prefix for mothur: %s'' [AVal (sra_id c), AStr (random_str e (fresh w))],
        Log INFO ''[SRA %s] Setting up directory %s for preprocessing'' [AVal (sra_id c), AStr tmp_dir]] @
       (if layout c = PStr ''single''
        then [Write (osp_join tmp_dir (random_str e (fresh w) @ ''.file''))
                (str_join [CHR 0x0A] (map get_fastq_file_line (files c)))]
        else []) @
       (if layout c = PStr ''paired'' \<and> trim_type c = PStr ''false''
        then [Write (osp_join tmp_dir ''primers.oligos'')
                (''primer '' @ py_str (primer_f c) @ '' '' @ py_str (primer_r c))]
        else []) @
       [Log INFO ''Building script %s for mothur.'' [AStr ''mothur/filter''],
        Render ''mothur/filter''
          [(''inputdir'', AStr tmp_dir), (''prefix'', AStr (random_str e (fresh w))),
           (''processors'', AVal jobs),
           (''qaverage'', AVal (settings e ''quality_average'')),
           (''maxambig'', AVal (settings e ''maximum_ambiguity'')),
           (''maxhomop'', AVal (settings e ''maximum_homopolymers''))],
        Write (osp_join tmp_dir ''script'') rendered,
        Log INFO ''[SRA %s] Running mothur...'' [AVal (sra_id c)]] \<and>
     isdir (fs w') tmp_dir"
proof -
  let ?prefix = "random_str e (fresh w)"
  define wa where "wa = w\<lparr>trace := trace w @
      [Log INFO ''[SRA %s] Copying FASTQ files %s for pre-processing at %s.''
          [AVal (sra_id c), AStrs (files c), AStr tmp_dir]]\<rparr>"
  have la: "logger INFO ''[SRA %s] Copying FASTQ files %s for pre-processing at %s.''
          [AVal (sra_id c), AStrs (files c), AStr tmp_dir] w = (Ret (), wa)"
    by (simp add: logger_def wa_def)
  have "\<forall>f \<in> set (files c). isfile (fs wa) f" using raw by (simp add: wa_def)
  from copy_files [OF this, of tmp_dir] obtain wb where
    wb: "copy (files c) tmp_dir wa = (Ret (), wb)"
      "trace wb = trace wa @ map (\<lambda>f. Copy f tmp_dir) (files c)" "fresh wb = fresh wa"
      "isdir (fs wa) tmp_dir \<and> (\<forall>f \<in> set (files c). osp_basename f \<noteq> []) \<longrightarrow> isdir (fs wb) tmp_dir"
    by blast
  with dir raw have dirb: "isdir (fs wb) tmp_dir" by (simp add: wa_def)
  define wc where "wc = wb\<lparr>fresh := Suc (fresh wb)\<rparr>"
  have rnd: "get_random_str e wb = (Ret ?prefix, wc)"
    using wb(3) by (simp add: get_random_str_def wc_def wa_def)
  from prepare_mothur_filter_runs [OF tpl, of c config wc] obtain wd where
    wd: "prepare_mothur_filter e jobs c config tmp_dir ?prefix wc = (Ret (), wd)"
      "trace wd = trace wc @
       [Log INFO ''[SRA %s] Using prefix for mothur: %s'' [AVal (sra_id c), AStr ?prefix],
        Log INFO ''[SRA %s] Setting up directory %s for preprocessing'' [AVal (sra_id c), AStr tmp_dir]] @
       (if layout c = PStr ''single''
        then [Write (osp_join tmp_dir (?prefix @ ''.file''))
                (str_join [CHR 0x0A] (map get_fastq_file_line (files c)))]
        else []) @
       (if layout c = PStr ''paired'' \<and> trim_type c = PStr ''false''
        then [Write (osp_join tmp_dir ''primers.oligos'')
                (''primer '' @ py_str (primer_f c) @ '' '' @ py_str (primer_r c))]
        else []) @
       [Log INFO ''Building script %s for mothur.'' [AStr ''mothur/filter''],
        Render ''mothur/filter''
          [(''inputdir'', AStr tmp_dir), (''prefix'', AStr ?prefix),
           (''processors'', AVal jobs),
           (''qaverage'', AVal (settings e ''quality_average'')),
           (''maxambig'', AVal (settings e ''maximum_ambiguity'')),
           (''maxhomop'', AVal (settings e ''maximum_homopolymers''))],
        Write (osp_join tmp_dir ''script'') rendered,
        Log INFO ''[SRA %s] Running mothur...'' [AVal (sra_id c)]]"
      "extends (fs wc) (fs wd)" by blast
  have dird: "isdir (fs wd) tmp_dir"
    using isdir_extends [OF wd(3)] dirb by (simp add: wc_def)
  have "filter_in_workspace e jobs c config tpath tmp_dir w =
      run_mothur_filter e c tmp_dir ?prefix (osp_join tmp_dir ''script'') tpath wd"
    unfolding filter_in_workspace_def
    using la wb(1) rnd wd(1)
    by (simp add: io_seq_def io_bind_def del: copy.simps)
  moreover have "trace wc = trace w @
       [Log INFO ''[SRA %s] Copying FASTQ files %s for pre-processing at %s.''
          [AVal (sra_id c), AStrs (files c), AStr tmp_dir]] @
       map (\<lambda>f. Copy f tmp_dir) (files c)"
    using wb(2) by (simp add: wc_def wa_def)
  ultimately show ?thesis
    using wd(2) dird by (intro exI [of _ wd]) simp
qed

text \<open>
  The whole way to the tool: the stage is not skipped, the cache directory exists, the
  workspace path is new, the raw files are regular files and the script renders.
\<close>

lemma filter_reaches_tool:
  fixes e kw c dd w rendered
  defines "s1 \<equiv> makedirs_store (data_dir_or_default e dd) (fs w)"
    and "tmp \<equiv> osp_join (path_cache e) (temp_name e (fresh w))"
    and "prefix \<equiv> random_str e (Suc (fresh w))"
  assumes missing: "\<not> (osp_exists s1 (osp_join (target_dir c) ''filtered.fasta'') \<and>
       osp_exists s1 (osp_join (target_dir c) ''filtered.group'') \<and>
       osp_exists s1 (osp_join (target_dir c) ''filtered.summary''))"
    and cache: "isdir s1 (path_cache e)"
    and new: "\<not> osp_exists s1 tmp"
    and raw: "\<forall>f \<in> set (files c). isfile s1 f \<and> osp_basename f \<noteq> []"
    and tpl: "render_template e ''mothur/filter''
             [(''inputdir'', AStr tmp), (''prefix'', AStr prefix),
              (''processors'', AVal (kwargs_get_jobs e kw)),
              (''qaverage'', AVal (settings e ''quality_average'')),
              (''maxambig'', AVal (settings e ''maximum_ambiguity'')),
              (''maxhomop'', AVal (settings e ''maximum_homopolymers''))] = Some rendered"
  shows "\<exists>w'. mothur_filter_files e kw c dd w =
            io_finally (run_mothur_filter e c tmp prefix (osp_join tmp ''script'')
                          (target_path (target_dir c)))
              (rmtree_io tmp) w' \<and>
     trace w' = trace w @
       [Log INFO ''Using config %s to filter files.'' (config_args c),
        MkTemp tmp,
        Log INFO ''[SRA %s] Copying FASTQ files %s for pre-processing at %s.''
          [AVal (sra_id c), AStrs (files c), AStr tmp]] @
       map (\<lambda>f. Copy f tmp) (files c) @
       [Log INFO ''[SRA %s] Using prefix for mothur: %s'' [AVal (sra_id c), AStr prefix],
        Log INFO ''[SRA %s] Setting up directory %s for preprocessing'' [AVal (sra_id c), AStr tmp]] @
       (if layout c = PStr ''single''
        then [Write (osp_join tmp (prefix @ ''.file''))
                (str_join [CHR 0x0A] (map get_fastq_file_line (files c)))]
        else []) @
       (if layout c = PStr ''paired'' \<and> trim_type c = PStr ''false''
        then [Write (osp_join tmp ''primers.oligos'')
                (''primer '' @ py_str (primer_f c) @ '' '' @ py_str (primer_r c))]
        else []) @
       [Log INFO ''Building script %s for mothur.'' [AStr ''mothur/filter''],
        Render ''mothur/filter''
          [(''inputdir'', AStr tmp), (''prefix'', AStr prefix),
           (''processors'', AVal (kwargs_get_jobs e kw)),
           (''qaverage'', AVal (settings e ''quality_average'')),
           (''maxambig'', AVal (settings e ''maximum_ambiguity'')),
           (''maxhomop'', AVal (settings e ''maximum_homopolymers''))],
        Write (osp_join tmp ''script'') rendered,
        Log INFO ''[SRA %s] Running mothur...'' [AVal (sra_id c)]] \<and>
     isdir (fs w') tmp"
proof -
  define w2 where "w2 = w\<lparr>fs := put tmp Dir s1,
           trace := trace w @ [Log INFO ''Using config %s to filter files.'' (config_args c), MkTemp tmp],
           fresh := Suc (fresh w)\<rparr>"
  have enter: "mothur_filter_files e kw c dd w =
      io_finally (filter_in_workspace e (kwargs_get_jobs e kw) c (popped c) (target_path (target_dir c)) tmp)
        (rmtree_io tmp) w2"
    using filter_enters_workspace [of e dd w c kw] missing cache
    by (simp add: s1_def tmp_def w2_def)
  have dir2: "isdir (fs w2) tmp" by (simp add: w2_def isdir_put)
  have raw2: "\<forall>f \<in> set (files c). isfile (fs w2) f \<and> osp_basename f \<noteq> []"
  proof
    fix f assume f: "f \<in> set (files c)"
    with raw have a: "isfile s1 f" "osp_basename f \<noteq> []" by auto
    with new have "f \<noteq> tmp" by (auto simp: isfile_def osp_exists_def)
    with a show "isfile (fs w2) f \<and> osp_basename f \<noteq> []" by (simp add: w2_def isfile_put)
  qed
  have tpl2: "render_template e ''mothur/filter''
             [(''inputdir'', AStr tmp), (''prefix'', AStr (random_str e (fresh w2))),
              (''processors'', AVal (kwargs_get_jobs e kw)),
              (''qaverage'', AVal (settings e ''quality_average'')),
              (''maxambig'', AVal (settings e ''maximum_ambiguity'')),
              (''maxhomop'', AVal (settings e ''maximum_homopolymers''))] = Some rendered"
    using tpl by (simp add: w2_def prefix_def)
  from filter_in_workspace_reaches_tool [OF dir2 raw2 tpl2, of "popped c" "target_path (target_dir c)"]
  obtain w' where w': "filter_in_workspace e (kwargs_get_jobs e kw) c (popped c) (target_path (target_dir c)) tmp w2 =
            run_mothur_filter e c tmp (random_str e (fresh w2)) (osp_join tmp ''script'')
              (target_path (target_dir c)) w'"
    and tr: "trace w' = trace w2 @
       [Log INFO ''[SRA %s] Copying FASTQ files %s for pre-processing at %s.''
          [AVal (sra_id c), AStrs (files c), AStr tmp]] @
       map (\<lambda>f. Copy f tmp) (files c) @
       [Log INFO ''[SRA %s] Using prefix for mothur: %s'' [AVal (sra_id c), AStr (random_str e (fresh w2))],
        Log INFO ''[SRA %s] Setting up directory %s for preprocessing'' [AVal (sra_id c), AStr tmp]] @
       (if layout c = PStr ''single''
        then [Write (osp_join tmp (random_str e (fresh w2) @ ''.file''))
                (str_join [CHR 0x0A] (map get_fastq_file_line (files c)))]
        else []) @
       (if layout c = PStr ''paired'' \<and> trim_type c = PStr ''false''
        then [Write (osp_join tmp ''primers.oligos'')
                (''primer '' @ py_str (primer_f c) @ '' '' @ py_str (primer_r c))]
        else []) @
       [Log INFO ''Building script %s for mothur.'' [AStr ''mothur/filter''],
        Render ''mothur/filter''
          [(''inputdir'', AStr tmp), (''prefix'', AStr (random_str e (fresh w2))),
           (''processors'', AVal (kwargs_get_jobs e kw)),
           (''qaverage'', AVal (settings e ''quality_average'')),
           (''maxambig'', AVal (settings e ''maximum_ambiguity'')),
           (''maxhomop'', AVal (settings e ''maximum_homopolymers''))],
        Write (osp_join tmp ''script'') rendered,
        Log INFO ''[SRA %s] Running mothur...'' [AVal (sra_id c)]]"
    and dir': "isdir (fs w') tmp" by blast
  have fr: "random_str e (fresh w2) = prefix" by (simp add: w2_def prefix_def)
  have "mothur_filter_files e kw c dd w =
            io_finally (run_mothur_filter e c tmp prefix (osp_join tmp ''script'')
                          (target_path (target_dir c))) (rmtree_io tmp) w'"
    unfolding enter using w' by (simp add: io_finally_def fr)
  moreover have "trace w2 = trace w @ [Log INFO ''Using config %s to filter files.'' (config_args c), MkTemp tmp]"
    by (simp add: w2_def)
  ultimately show ?thesis
    using tr dir' unfolding fr by (intro exI [of _ w']) simp
qed

subsection \<open>Paths that stay absent\<close>


















subsection \<open>Filter: the tool fails\<close>




subsection \<open>Filter: the gate\<close>

lemma appends_workspace [intro!]: "appends (filter_in_workspace e jobs c config tpath tmp_dir)"
  unfolding filter_in_workspace_def
  by (intro appends_seq appends_bind appends_prims appends_copy appends_prepare appends_run)

text \<open>Without the cache directory no workspace can be made: the stage raises.\<close>

lemma filter_without_cache:
  assumes "\<not> (osp_exists (makedirs_store (data_dir_or_default e dd) (fs w)) (osp_join (target_dir c) ''filtered.fasta'') \<and>
       osp_exists (makedirs_store (data_dir_or_default e dd) (fs w)) (osp_join (target_dir c) ''filtered.group'') \<and>
       osp_exists (makedirs_store (data_dir_or_default e dd) (fs w)) (osp_join (target_dir c) ''filtered.summary''))"
    and "\<not> isdir (makedirs_store (data_dir_or_default e dd) (fs w)) (path_cache e)"
  shows "fst (mothur_filter_files e kw c dd w) = Exc (FileNotFoundError (path_cache e))"
  using assms
  by (auto simp add: mothur_filter_files_def get_data_dir_eq gate_present Let_def
        io_seq_def io_bind_def logger_def make_temp_dir_def mkdtemp_def)

text \<open>
  Claim C1. Let \<open>s1\<close> be the store \<^verbatim>\<open>_mothur_filter_files\<close> tests, that is, the store once the
  data directory has been ensured. The call is a skip (it returns normally, leaves that
  store as it is, creates no workspace, runs no process, and logs only its opening line
  and the warning that the filtered files already exist) if and only if
  \<^verbatim>\<open>filtered.fasta\<close>, \<^verbatim>\<open>filtered.group\<close> and \<^verbatim>\<open>filtered.summary\<close> all exist under the sample's target
  directory. When at least one of the three is missing (and the cache directory exists, the
  workspace path is fresh, the raw files are regular files and the script renders), the
  whole stage runs again: a workspace is acquired, every raw file is copied into it, the
  control file of the layout and the rendered script are written, and the tool is started
  in the workspace; when the tool then exits with status 0 and has left its three outputs,
  these are copied onto the three target paths, in this order and with nothing else in
  between.
\<close>

theorem mothur_filter_files_gate:
  fixes e kw c dd w rendered
  defines "s1 \<equiv> makedirs_store (data_dir_or_default e dd) (fs w)"
    and "tmp \<equiv> osp_join (path_cache e) (temp_name e (fresh w))"
    and "prefix \<equiv> random_str e (Suc (fresh w))"
    and "t_fasta \<equiv> osp_join (target_dir c) ''filtered.fasta''"
    and "t_group \<equiv> osp_join (target_dir c) ''filtered.group''"
    and "t_summary \<equiv> osp_join (target_dir c) ''filtered.summary''"
  defines "cmd \<equiv> ''mothur '' @ osp_join tmp ''script''"
    and "script_config \<equiv>
           [(''inputdir'', AStr tmp), (''prefix'', AStr prefix),
            (''processors'', AVal (kwargs_get_jobs e kw)),
            (''qaverage'', AVal (settings e ''quality_average'')),
            (''maxambig'', AVal (settings e ''maximum_ambiguity'')),
            (''maxhomop'', AVal (settings e ''maximum_homopolymers''))]"
  defines "prelude \<equiv>
       [Log INFO ''Using config %s to filter files.'' (config_args c),
        MkTemp tmp,
        Log INFO ''[SRA %s] Copying FASTQ files %s for pre-processing at %s.''
          [AVal (sra_id c), AStrs (files c), AStr tmp]] @
       map (\<lambda>f. Copy f tmp) (files c) @
       [Log INFO ''[SRA %s] Using prefix for mothur: %s'' [AVal (sra_id c), AStr prefix],
        Log INFO ''[SRA %s] Setting up directory %s for preprocessing'' [AVal (sra_id c), AStr tmp]] @
       (if layout c = PStr ''single''
        then [Write (osp_join tmp (prefix @ ''.file''))
                (str_join [CHR 0x0A] (map get_fastq_file_line (files c)))]
        else []) @
       (if layout c = PStr ''paired'' \<and> trim_type c = PStr ''false''
        then [Write (osp_join tmp ''primers.oligos'')
                (''primer '' @ py_str (primer_f c) @ '' '' @ py_str (primer_r c))]
        else []) @
       [Log INFO ''Building script %s for mothur.'' [AStr ''mothur/filter''],
        Render ''mothur/filter'' script_config,
        Write (osp_join tmp ''script'') rendered,
        Log INFO ''[SRA %s] Running mothur...'' [AVal (sra_id c)]]"
  shows
   "(mothur_filter_files e kw c dd w =
       (Ret (), w\<lparr>fs := s1,
                   trace := trace w @
                     [Log INFO ''Using config %s to filter files.'' (config_args c),
                      Log WARN ''[SRA %s] Filtered files already exists.'' [AVal (sra_id c)]]\<rparr>)
     \<longleftrightarrow> osp_exists s1 t_fasta \<and> osp_exists s1 t_group \<and> osp_exists s1 t_summary)
    \<and>
    (\<not> (osp_exists s1 t_fasta \<and> osp_exists s1 t_group \<and> osp_exists s1 t_summary) \<and>
     isdir s1 (path_cache e) \<and> \<not> osp_exists s1 tmp \<and>
     (\<forall>f \<in> set (files c). isfile s1 f \<and> osp_basename f \<noteq> []) \<and>
     render_template e ''mothur/filter'' script_config = Some rendered
     \<longrightarrow>
       (\<exists>rest. new_events w (snd (mothur_filter_files e kw c dd w)) = prelude @ Exec cmd tmp # rest) \<and>
       ((\<forall>s. fst (run_process e cmd tmp s) = 0) \<and>
        (\<forall>s. \<forall>i < 3. isfile (snd (run_process e cmd tmp s))
                         (osp_join tmp (prefix @ choice (layout c) ! i)))
        \<longrightarrow>
          fst (mothur_filter_files e kw c dd w) = Ret () \<and>
          new_events w (snd (mothur_filter_files e kw c dd w)) =
            prelude @
            [Exec cmd tmp,
             Log SUCCESS ''[SRA %s] mothur ran successfully.'' [AVal (sra_id c)],
             Log INFO ''[SRA %s] Attempting to copy filtered files.'' [AVal (sra_id c)],
             Copy (osp_join tmp (prefix @ choice (layout c) ! 0)) t_fasta,
             Copy (osp_join tmp (prefix @ choice (layout c) ! 1)) t_group,
             Copy (osp_join tmp (prefix @ choice (layout c) ! 2)) t_summary,
             Log INFO ''[SRA %s] Successfully copied filtered files at %s.''
               [AVal (sra_id c), AStr (target_dir c)]]))"
proof -
  let ?all = "osp_exists s1 t_fasta \<and> osp_exists s1 t_group \<and> osp_exists s1 t_summary"
  let ?skip = "(Ret (), w\<lparr>fs := s1,
                   trace := trace w @
                     [Log INFO ''Using config %s to filter files.'' (config_args c),
                      Log WARN ''[SRA %s] Filtered files already exists.'' [AVal (sra_id c)]]\<rparr>)"
  let ?run = "run_mothur_filter e c tmp prefix (osp_join tmp ''script'') (target_path (target_dir c))"
  have skip: "mothur_filter_files e kw c dd w = ?skip" if ?all
    using that
    by (simp add: mothur_filter_files_def get_data_dir_eq gate_present Let_def
          io_seq_def io_bind_def logger_def s1_def t_fasta_def t_group_def t_summary_def)
  have noskip: "mothur_filter_files e kw c dd w \<noteq> ?skip" if n: "\<not> ?all"
  proof (cases "isdir s1 (path_cache e)")
    case False
    with n have "fst (mothur_filter_files e kw c dd w) = Exc (FileNotFoundError (path_cache e))"
      unfolding s1_def t_fasta_def t_group_def t_summary_def by (rule filter_without_cache)
    then show ?thesis by auto
  next
    case True
    let ?w2 = "w\<lparr>fs := put tmp Dir s1,
           trace := trace w @ [Log INFO ''Using config %s to filter files.'' (config_args c), MkTemp tmp],
           fresh := Suc (fresh w)\<rparr>"
    have enter: "mothur_filter_files e kw c dd w =
        io_finally (filter_in_workspace e (kwargs_get_jobs e kw) c (popped c) (target_path (target_dir c)) tmp)
          (rmtree_io tmp) ?w2"
      using filter_enters_workspace [of e dd w c kw] n True
      by (simp add: s1_def tmp_def t_fasta_def t_group_def t_summary_def)
    from appendsD [OF appends_workspace, of e "kwargs_get_jobs e kw" c "popped c"
        "target_path (target_dir c)" tmp ?w2]
    obtain t where "trace (snd (mothur_filter_files e kw c dd w)) =
        trace w @ [Log INFO ''Using config %s to filter files.'' (config_args c), MkTemp tmp] @ t"
      unfolding enter finally_rmtree by auto
    then have "trace (snd (mothur_filter_files e kw c dd w)) \<noteq> trace (snd ?skip)"
      by simp
    then show ?thesis by metis
  qed
  have rerun: "(\<exists>rest. new_events w (snd (mothur_filter_files e kw c dd w)) = prelude @ Exec cmd tmp # rest) \<and>
       ((\<forall>s. fst (run_process e cmd tmp s) = 0) \<and>
        (\<forall>s. \<forall>i < 3. isfile (snd (run_process e cmd tmp s))
                         (osp_join tmp (prefix @ choice (layout c) ! i)))
        \<longrightarrow>
          fst (mothur_filter_files e kw c dd w) = Ret () \<and>
          new_events w (snd (mothur_filter_files e kw c dd w)) =
            prelude @
            [Exec cmd tmp,
             Log SUCCESS ''[SRA %s] mothur ran successfully.'' [AVal (sra_id c)],
             Log INFO ''[SRA %s] Attempting to copy filtered files.'' [AVal (sra_id c)],
             Copy (osp_join tmp (prefix @ choice (layout c) ! 0)) t_fasta,
             Copy (osp_join tmp (prefix @ choice (layout c) ! 1)) t_group,
             Copy (osp_join tmp (prefix @ choice (layout c) ! 2)) t_summary,
             Log INFO ''[SRA %s] Successfully copied filtered files at %s.''
               [AVal (sra_id c), AStr (target_dir c)]])"
    if missing: "\<not> ?all" and cache: "isdir s1 (path_cache e)" and new: "\<not> osp_exists s1 tmp"
      and raw: "\<forall>f \<in> set (files c). isfile s1 f \<and> osp_basename f \<noteq> []"
      and tpl: "render_template e ''mothur/filter'' script_config = Some rendered"
  proof -
    have "\<exists>wt. mothur_filter_files e kw c dd w = io_finally ?run (rmtree_io tmp) wt \<and>
          trace wt = trace w @ prelude \<and> isdir (fs wt) tmp"
      using missing cache new raw tpl
      unfolding s1_def tmp_def prefix_def t_fasta_def t_group_def t_summary_def script_config_def
        prelude_def
      by (rule filter_reaches_tool)
    then obtain wt where eq: "mothur_filter_files e kw c dd w = io_finally ?run (rmtree_io tmp) wt"
      and tr: "trace wt = trace w @ prelude" and dir: "isdir (fs wt) tmp" by blast
    from run_mothur_filter_starts [of e c tmp prefix "osp_join tmp ''script''"
        "target_path (target_dir c)" wt]
    obtain t where "trace (snd (?run wt)) = trace wt @ Exec cmd tmp # t"
      unfolding cmd_def by blast
    then have "new_events w (snd (mothur_filter_files e kw c dd w)) = prelude @ Exec cmd tmp # t"
      unfolding eq finally_rmtree new_events_def by (simp add: tr)
    then have first: "\<exists>rest. new_events w (snd (mothur_filter_files e kw c dd w)) =
        prelude @ Exec cmd tmp # rest" by blast
    have second: "fst (mothur_filter_files e kw c dd w) = Ret () \<and>
          new_events w (snd (mothur_filter_files e kw c dd w)) =
            prelude @
            [Exec cmd tmp,
             Log SUCCESS ''[SRA %s] mothur ran successfully.'' [AVal (sra_id c)],
             Log INFO ''[SRA %s] Attempting to copy filtered files.'' [AVal (sra_id c)],
             Copy (osp_join tmp (prefix @ choice (layout c) ! 0)) t_fasta,
             Copy (osp_join tmp (prefix @ choice (layout c) ! 1)) t_group,
             Copy (osp_join tmp (prefix @ choice (layout c) ! 2)) t_summary,
             Log INFO ''[SRA %s] Successfully copied filtered files at %s.''
               [AVal (sra_id c), AStr (target_dir c)]]"
      if ok: "\<forall>s. fst (run_process e cmd tmp s) = 0"
        and out: "\<forall>s. \<forall>i < 3. isfile (snd (run_process e cmd tmp s))
                         (osp_join tmp (prefix @ choice (layout c) ! i))"
    proof -
      from ok have ok': "fst (run_process e (''mothur '' @ osp_join tmp ''script'') tmp (fs wt)) = 0"
        by (simp add: cmd_def)
      from out have out': "\<forall>i < 3. isfile (snd (run_process e (''mothur '' @ osp_join tmp ''script'') tmp (fs wt)))
                (osp_join tmp (prefix @ choice (layout c) ! i))"
        unfolding cmd_def by blast
      from run_mothur_filter_succeeds [OF dir ok' out']
      obtain w' where r: "?run wt = (Ret (), w')"
        and t': "trace w' = trace wt @
         [Exec (''mothur '' @ osp_join tmp ''script'') tmp,
          Log SUCCESS ''[SRA %s] mothur ran successfully.'' [AVal (sra_id c)],
          Log INFO ''[SRA %s] Attempting to copy filtered files.'' [AVal (sra_id c)],
          Copy (osp_join tmp (prefix @ choice (layout c) ! 0)) (osp_join (target_dir c) ''filtered.fasta''),
          Copy (osp_join tmp (prefix @ choice (layout c) ! 1)) (osp_join (target_dir c) ''filtered.group''),
          Copy (osp_join tmp (prefix @ choice (layout c) ! 2)) (osp_join (target_dir c) ''filtered.summary''),
          Log INFO ''[SRA %s] Successfully copied filtered files at %s.''
            [AVal (sra_id c), AStr (target_dir c)]]" by blast
      show ?thesis
        unfolding eq finally_rmtree new_events_def r
        by (simp add: t' tr cmd_def t_fasta_def t_group_def t_summary_def)
    qed
    from first second show ?thesis by blast
  qed
  show ?thesis
    apply (intro conjI)
    subgoal using skip noskip by blast
    subgoal using rerun by blast
    done
qed

lemma file_line_SRR1:
  "get_fastq_file_line ''/data/SRR1/SRR1.fastq'' = ''SRR1 /data/SRR1/SRR1.fastq''"
  by (simp add: get_fastq_file_line_def osp_splitext_def splitext_name_def path_eval Let_def)

theorem mothur_filter_files_gate_witness:
  "mothur_filter_files env_mothur None cfg0 None w_filtered =
     (Ret (), w_filtered\<lparr>trace :=
        [Log INFO ''Using config %s to filter files.'' (config_args cfg0),
         Log WARN ''[SRA %s] Filtered files already exists.'' [AVal (PStr ''SRR1'')]]\<rparr>) \<and>
   osp_exists store_partial ''/data/SRR1/filtered.fasta'' \<and>
   \<not> osp_exists store_partial ''/data/SRR1/filtered.group'' \<and>
   fst (mothur_filter_files env_mothur None cfg0 None w_partial) = Ret () \<and>
   new_events w_partial (snd (mothur_filter_files env_mothur None cfg0 None w_partial)) =
     [Log INFO ''Using config %s to filter files.'' (config_args cfg0),
      MkTemp ''/cache/tmp0'',
      Log INFO ''[SRA %s] Copying FASTQ files %s for pre-processing at %s.''
        [AVal (PStr ''SRR1''), AStrs [''/data/SRR1/SRR1.fastq''], AStr ''/cache/tmp0''],
      Copy ''/data/SRR1/SRR1.fastq'' ''/cache/tmp0'',
      Log INFO ''[SRA %s] Using prefix for mothur: %s'' [AVal (PStr ''SRR1''), AStr ''rnd1''],
      Log INFO ''[SRA %s] Setting up directory %s for preprocessing''
        [AVal (PStr ''SRR1''), AStr ''/cache/tmp0''],
      Write ''/cache/tmp0/rnd1.file'' ''SRR1 /data/SRR1/SRR1.fastq'',
      Log INFO ''Building script %s for mothur.'' [AStr ''mothur/filter''],
      Render ''mothur/filter''
        [(''inputdir'', AStr ''/cache/tmp0''), (''prefix'', AStr ''rnd1''),
         (''processors'', AVal (PInt 4)), (''qaverage'', AVal (PInt 35)),
         (''maxambig'', AVal (PInt 0)), (''maxhomop'', AVal (PInt 8))],
      Write ''/cache/tmp0/script'' ''mothur/filter'',
      Log INFO ''[SRA %s] Running mothur...'' [AVal (PStr ''SRR1'')],
      Exec ''mothur /cache/tmp0/script'' ''/cache/tmp0'',
      Log SUCCESS ''[SRA %s] mothur ran successfully.'' [AVal (PStr ''SRR1'')],
      Log INFO ''[SRA %s] Attempting to copy filtered files.'' [AVal (PStr ''SRR1'')],
      Copy ''/cache/tmp0/rnd1.trim.good.fasta'' ''/data/SRR1/filtered.fasta'',
      Copy ''/cache/tmp0/rnd1.good.group'' ''/data/SRR1/filtered.group'',
      Copy ''/cache/tmp0/rnd1.trim.good.summary'' ''/data/SRR1/filtered.summary'',
      Log INFO ''[SRA %s] Successfully copied filtered files at %s.''
        [AVal (PStr ''SRR1''), AStr ''/data/SRR1'']]"
proof -
  have d: "data_dir_or_default env_mothur None = ''/data''"
    by (simp add: data_dir_or_default_def env_mothur_def env0_def)
  have s1: "makedirs_store (data_dir_or_default env_mothur None) (fs w_partial) = store_partial"
    "makedirs_store (data_dir_or_default env_mothur None) (fs w_filtered) = store_filtered"
    unfolding d
    by (simp_all add: w_partial_def w_filtered_def makedirs_store.simps store_partial_def
          store_filtered_def osp_exists_def lookup_def)
  have tmp: "osp_join (path_cache env_mothur) (temp_name env_mothur (fresh w_partial)) = ''/cache/tmp0''"
    "osp_join ''/cache'' (temp_name env_mothur (fresh w_partial)) = ''/cache/tmp0''"
    by (simp_all add: env_mothur_def env0_def w_partial_def osp_join_def dec_nat.simps digit_char_def)
  have prefix: "random_str env_mothur (Suc (fresh w_partial)) = ''rnd1''"
    by (simp add: env_mothur_def env0_def w_partial_def dec_nat.simps digit_char_def)
  have t: "osp_join (target_dir cfg0) ''filtered.fasta'' = ''/data/SRR1/filtered.fasta''"
    "osp_join (target_dir cfg0) ''filtered.group'' = ''/data/SRR1/filtered.group''"
    "osp_join (target_dir cfg0) ''filtered.summary'' = ''/data/SRR1/filtered.summary''"
    by (simp_all add: cfg0_def osp_join_def)
  have j: "osp_join ''/cache/tmp0'' ''script'' = ''/cache/tmp0/script''"
    "osp_join ''/cache/tmp0'' ''rnd1.file'' = ''/cache/tmp0/rnd1.file''"
    "osp_join ''/cache/tmp0'' ''rnd1.trim.good.fasta'' = ''/cache/tmp0/rnd1.trim.good.fasta''"
    "osp_join ''/cache/tmp0'' ''rnd1.good.group'' = ''/cache/tmp0/rnd1.good.group''"
    "osp_join ''/cache/tmp0'' ''rnd1.trim.good.summary'' = ''/cache/tmp0/rnd1.trim.good.summary''"
    "osp_join ''/data/SRR1'' ''filtered.fasta'' = ''/data/SRR1/filtered.fasta''"
    "osp_join ''/data/SRR1'' ''filtered.group'' = ''/data/SRR1/filtered.group''"
    "osp_join ''/data/SRR1'' ''filtered.summary'' = ''/data/SRR1/filtered.summary''"
    by (simp_all add: osp_join_def)
  have env: "kwargs_get_jobs env_mothur None = PInt 4"
    "settings env_mothur ''quality_average'' = PInt 35"
    "settings env_mothur ''maximum_ambiguity'' = PInt 0"
    "settings env_mothur ''maximum_homopolymers'' = PInt 8"
    "render_template env_mothur = (\<lambda>t c. Some t)"
    by (simp_all add: kwargs_get_jobs_def env_mothur_def env0_def DEFAULT_def fun_eq_iff)
  have c: "files cfg0 = [''/data/SRR1/SRR1.fastq'']"
    "sra_id cfg0 = PStr ''SRR1''" "layout cfg0 = PStr ''single''" "target_dir cfg0 = ''/data/SRR1''"
    by (simp_all add: cfg0_def)
  have present: "osp_exists store_filtered ''/data/SRR1/filtered.fasta''"
    "osp_exists store_filtered ''/data/SRR1/filtered.group''"
    "osp_exists store_filtered ''/data/SRR1/filtered.summary''"
    "osp_exists store_partial ''/data/SRR1/filtered.fasta''"
    by (simp_all add: store_filtered_def store_partial_def osp_exists_def lookup_def)
  have absent: "\<not> osp_exists store_partial ''/data/SRR1/filtered.group''"
    "\<not> osp_exists store_partial ''/cache/tmp0''"
    by (simp_all add: store_partial_def osp_exists_def lookup_def)
  have cache: "isdir store_partial (path_cache env_mothur)"
    by (simp add: store_partial_def isdir_def lookup_def env_mothur_def env0_def)
  have raw: "isfile store_partial ''/data/SRR1/SRR1.fastq''"
    "osp_basename ''/data/SRR1/SRR1.fastq'' \<noteq> []"
    by (simp_all add: store_partial_def isfile_def lookup_def osp_basename_def)
  have ok: "\<forall>s. fst (run_process env_mothur ''mothur /cache/tmp0/script'' ''/cache/tmp0'' s) = 0"
    by (simp add: env_mothur_def)
  have out: "\<forall>s. \<forall>i < 3. isfile (snd (run_process env_mothur ''mothur /cache/tmp0/script'' ''/cache/tmp0'' s))
       (osp_join ''/cache/tmp0'' (''rnd1'' @ choice (PStr ''single'') ! i))"
  proof (intro allI impI)
    fix s :: store and i :: nat assume "i < 3"
    then consider "i = 0" | "i = 1" | "i = 2" by linarith
    then show "isfile (snd (run_process env_mothur ''mothur /cache/tmp0/script'' ''/cache/tmp0'' s))
       (osp_join ''/cache/tmp0'' (''rnd1'' @ choice (PStr ''single'') ! i))"
      by cases (simp_all add: choice_def env_mothur_def isfile_put osp_join_def)
  qed
  note A = mothur_filter_files_gate [of env_mothur None cfg0 None w_filtered "''mothur/filter''",
      unfolded s1 t, THEN conjunct1]
  note B = mothur_filter_files_gate [of env_mothur None cfg0 None w_partial "''mothur/filter''",
      unfolded s1 tmp prefix t j env c, THEN conjunct2]
  from A present have skip: "mothur_filter_files env_mothur None cfg0 None w_filtered =
     (Ret (), w_filtered\<lparr>trace :=
        [Log INFO ''Using config %s to filter files.'' (config_args cfg0),
         Log WARN ''[SRA %s] Filtered files already exists.'' [AVal (PStr ''SRR1'')]]\<rparr>)"
    by (simp add: w_filtered_def c)
  from B absent cache raw ok out
  have "fst (mothur_filter_files env_mothur None cfg0 None w_partial) = Ret () \<and>
   new_events w_partial (snd (mothur_filter_files env_mothur None cfg0 None w_partial)) =
     [Log INFO ''Using config %s to filter files.'' (config_args cfg0),
      MkTemp ''/cache/tmp0'',
      Log INFO ''[SRA %s] Copying FASTQ files %s for pre-processing at %s.''
        [AVal (PStr ''SRR1''), AStrs [''/data/SRR1/SRR1.fastq''], AStr ''/cache/tmp0''],
      Copy ''/data/SRR1/SRR1.fastq'' ''/cache/tmp0'',
      Log INFO ''[SRA %s] Using prefix for mothur: %s'' [AVal (PStr ''SRR1''), AStr ''rnd1''],
      Log INFO ''[SRA %s] Setting up directory %s for preprocessing''
        [AVal (PStr ''SRR1''), AStr ''/cache/tmp0''],
      Write ''/cache/tmp0/rnd1.file'' ''SRR1 /data/SRR1/SRR1.fastq'',
      Log INFO ''Building script %s for mothur.'' [AStr ''mothur/filter''],
      Render ''mothur/filter''
        [(''inputdir'', AStr ''/cache/tmp0''), (''prefix'', AStr ''rnd1''),
         (''processors'', AVal (PInt 4)), (''qaverage'', AVal (PInt 35)),
         (''maxambig'', AVal (PInt 0)), (''maxhomop'', AVal (PInt 8))],
      Write ''/cache/tmp0/script'' ''mothur/filter'',
      Log INFO ''[SRA %s] Running mothur...'' [AVal (PStr ''SRR1'')],
      Exec ''mothur /cache/tmp0/script'' ''/cache/tmp0'',
      Log SUCCESS ''[SRA %s] mothur ran successfully.'' [AVal (PStr ''SRR1'')],
      Log INFO ''[SRA %s] Attempting to copy filtered files.'' [AVal (PStr ''SRR1'')],
      Copy ''/cache/tmp0/rnd1.trim.good.fasta'' ''/data/SRR1/filtered.fasta'',
      Copy ''/cache/tmp0/rnd1.good.group'' ''/data/SRR1/filtered.group'',
      Copy ''/cache/tmp0/rnd1.trim.good.summary'' ''/data/SRR1/filtered.summary'',
      Log INFO ''[SRA %s] Successfully copied filtered files at %s.''
        [AVal (PStr ''SRR1''), AStr ''/data/SRR1'']]"
    by (simp add: choice_def j file_line_SRR1 str_join_def)
  with skip present(4) absent(1) show ?thesis by simp
qed

end
